theory Spec2Isabelle
  imports Complex_Main "HOL-Library.Char_ord" "HOL-Library.List_Lexorder" "HOL-Library.Log_Nat"
begin

section \<open>Data model (types/interfaces.ts)\<close>

text \<open>
  A JavaScript \<open>number\<close> is modelled as the rational it denotes. The placement score,
  which divides load by capacity and compares the results, rounds each of its
  operations to the nearest double (\<open>fl\<close> below), as IEEE 754 arithmetic does; the
  capacity derivation and the load counters, which multiply core counts by \<open>1.5\<close> and
  add or subtract \<open>1\<close>, are written with exact arithmetic. NaN, the infinities and the
  sign of zero are outside the model. Timestamps (\<open>Date.now()\<close>) are integers and
  are passed to every operation that reads the clock. Fields of the interfaces that no
  modelled function reads (payload type, ssrc, disk space, metadata, requester
  descriptor, metrics) are left out.
\<close>

type_synonym number = rat

datatype JobStatus = pending | initializing | recording | completed | failed | cancelled

datatype StreamKind = audio | video

datatype Quality = low | medium | high

record NodeSpecs =
  cpuCores :: number
  ram :: number
  hasGPU :: bool

text \<open>The fields shared by \<open>RoomServerNode\<close> and \<open>FFmpegNode\<close>; the field \<open>id\<close> of the
  source is \<open>nodeId\<close> here, since \<open>id\<close> is the identity function of HOL.\<close>

record Node =
  nodeId :: string
  url :: string
  region :: string
  capacity :: number
  currentLoad :: number
  isHealthy :: bool
  lastHeartbeat :: int
  specs :: NodeSpecs

record RoomServerNode = Node +
  rooms :: "string list"

record FFmpegNode = Node +
  supportedCodecs :: "string list"
  activeJobs :: "string list"

text \<open>\<open>port\<close> is \<open>None\<close> where the source stores \<open>undefined\<close> (an index past the end of the
  allocated ports).\<close>

record RTPStreamInfo =
  kind :: StreamKind
  port :: "nat option"
  codecName :: string

record RecordingOptions =
  quality :: Quality

record PeerInfo =
  displayName :: string

record TargetNode =
  ip :: string
  ports :: "nat list"

record RTPForwardingConfig =
  cfgJobId :: string
  cfgPeerId :: string
  targetNode :: TargetNode
  cfgRtpStreams :: "RTPStreamInfo list"

record DistributedRecordingJob =
  roomServerId :: string
  roomId :: string
  peerId :: string
  peerInfo :: PeerInfo
  ffmpegNodeId :: string
  rtpStreams :: "RTPStreamInfo list"
  rtpForwarding :: "RTPForwardingConfig option"
  options :: RecordingOptions
  status :: JobStatus
  startTime :: int
  endTime :: "int option"
  outputPath :: "string option"
  errorMessage :: "string option"

text \<open>\<open>RecordingRequirements\<close>: the field \<open>region\<close> of the source is \<open>reqRegion\<close> here (the
  name is taken by the nodes). An optional field that is absent is \<open>None\<close>; an absent
  \<open>preferGPU\<close> is \<open>False\<close>, which the source's truthiness test does not tell apart.\<close>

record RecordingRequirements =
  reqRegion :: string
  codecRequirements :: "string list"
  estimatedLoad :: number
  preferGPU :: bool
  minCPUCores :: "number option"
  minRAM :: "number option"

section \<open>Capacity derivation\<close>

text \<open>\<open>OrchestrationService.calculateNodeCapacity\<close>.\<close>

definition calculateNodeCapacity :: "NodeSpecs \<Rightarrow> number" where
  "calculateNodeCapacity sp =
     (let capacity0 = cpuCores sp * (3 / 2);
          capacity1 = (if hasGPU sp then capacity0 * 2 else capacity0);
          ramCapacity = of_int \<lfloor>ram sp / (500 * 1024 * 1024)\<rfloor>
      in min (min capacity1 ramCapacity) 12)"


section \<open>Placement (LoadBalancerService.ts)\<close>

text \<open>The test \<open>codecRequirements.every(codec => node.supportedCodecs.includes(codec))\<close>.\<close>

definition codecMatch :: "RecordingRequirements \<Rightarrow> FFmpegNode \<Rightarrow> bool" where
  "codecMatch requirements node =
     list_all (\<lambda>codec. codec \<in> set (supportedCodecs node)) (codecRequirements requirements)"

subsection \<open>The arithmetic of doubles\<close>

text \<open>
  The result of an arithmetic operation of JavaScript is the exact result rounded to the
  nearest IEEE 754 binary64 number, ties to the even significand. \<open>binExp x\<close> is the
  binary exponent of a positive rational, \<open>\<lfloor>log\<^sub>2 x\<rfloor>\<close>; the doubles around \<open>x\<close> are the
  multiples of \<open>2 ^ (e - 52)\<close>, where \<open>e\<close> is that exponent, and not less than \<open>-1022\<close>
  (below \<open>2 ^ -1022\<close> the doubles are the multiples of \<open>2 ^ -1074\<close>). A result of
  magnitude \<open>2 ^ 1024\<close> or more is an infinity in JavaScript and is not modelled.
\<close>

definition binExp :: "rat \<Rightarrow> int" where
  "binExp x = (if 1 \<le> x then int (floorlog 2 (nat \<lfloor>x\<rfloor>)) - 1
               else - int (floorlog 2 (nat (\<lceil>1 / x\<rceil> - 1))))"

definition roundHalfEven :: "rat \<Rightarrow> int" where
  "roundHalfEven q =
     (let f = \<lfloor>q\<rfloor>; d = q - of_int f
      in if d < 1 / 2 then f else if 1 / 2 < d then f + 1 else if even f then f else f + 1)"

definition fl :: "number \<Rightarrow> number" where
  "fl x = (if x = 0 then 0
           else (let e = max (binExp \<bar>x\<bar>) (- 1022); ulp = 2 powi (e - 52)
                 in sgn x * of_int (roundHalfEven (\<bar>x\<bar> / ulp)) * ulp))"

subsection \<open>The score\<close>

text \<open>\<open>calculateNodeScore\<close>; every \<open>+\<close>, \<open>-\<close>, \<open>*\<close> and \<open>/\<close> of the source is the exact
  operation followed by the rounding \<open>fl\<close>. Division by a zero capacity is \<open>0\<close> in HOL where
  JavaScript gives an infinity or NaN; a node that passes the availability filter with a
  load that is not negative has a positive capacity.\<close>

definition calculateNodeScore :: "FFmpegNode \<Rightarrow> RecordingRequirements \<Rightarrow> number" where
  "calculateNodeScore node requirements =
     (let capacityScore = fl (fl (fl (capacity node - currentLoad node) / capacity node) * 40);
          score1 = fl (0 + capacityScore);
          score2 = (if region node = reqRegion requirements then fl (score1 + 25) else fl (score1 - 10));
          score3 = (if hasGPU (specs node) \<and> estimatedLoad requirements > 2 then fl (score2 + 20)
                    else if \<not> hasGPU (specs node) \<and> estimatedLoad requirements \<le> 1 then fl (score2 + 10)
                    else score2);
          cpuBonus = min (fl (cpuCores (specs node) * 2)) 10;
          score4 = fl (score3 + cpuBonus);
          loadPenalty = fl (fl (currentLoad node / capacity node) * 5);
          score5 = fl (score4 - loadPenalty);
          score6 = (if codecMatch requirements node then fl (score5 + 5) else score5)
      in max score6 0)"

text \<open>The candidates that reach the scoring step of \<open>selectOptimalFFmpegNode\<close>: the
  availability filter, then the region, codec and GPU preferences (each falls back to
  the set before it when it empties), then the hard floors on cores and RAM. A floor
  that is absent or \<open>0\<close> is falsy in the source and filters nothing.\<close>

definition hardwareFilteredNodes :: "FFmpegNode list \<Rightarrow> RecordingRequirements \<Rightarrow> FFmpegNode list" where
  "hardwareFilteredNodes availableNodes requirements =
     (let healthyNodes = filter (\<lambda>node. isHealthy node \<and> currentLoad node < capacity node) availableNodes;
          preferredRegionNodes = filter (\<lambda>node. region node = reqRegion requirements) healthyNodes;
          candidateNodes = (if preferredRegionNodes \<noteq> [] then preferredRegionNodes else healthyNodes);
          codecCompatibleNodes = filter (codecMatch requirements) candidateNodes;
          finalCandidates = (if codecCompatibleNodes \<noteq> [] then codecCompatibleNodes else candidateNodes);
          gpuNodes = filter (\<lambda>node. hasGPU (specs node)) finalCandidates;
          hw1 = (if preferGPU requirements \<and> gpuNodes \<noteq> [] then gpuNodes else finalCandidates);
          hw2 = (case minCPUCores requirements of
                   None \<Rightarrow> hw1
                 | Some m \<Rightarrow> if m = 0 then hw1 else filter (\<lambda>node. cpuCores (specs node) \<ge> m) hw1);
          hw3 = (case minRAM requirements of
                   None \<Rightarrow> hw2
                 | Some m \<Rightarrow> if m = 0 then hw2 else filter (\<lambda>node. ram (specs node) \<ge> m) hw2)
      in hw3)"

text \<open>\<open>scoredNodes.sort((a, b) => b.score - a.score)\<close>: a stable sort by descending
  score (\<open>Array.prototype.sort\<close> is stable since ES2019), which is the insertion sort of
  the library on the negated score. The difference of two doubles is rounded, but it is
  zero only when they are equal and has the sign of the exact difference otherwise, so
  the comparator orders the scores as the rationals they denote.\<close>

definition sortByScore :: "(FFmpegNode \<times> number) list \<Rightarrow> (FFmpegNode \<times> number) list" where
  "sortByScore scoredNodes = sort_key (\<lambda>p. - snd p) scoredNodes"

text \<open>\<open>selectOptimalFFmpegNode\<close>; \<open>None\<close> is the source's \<open>null\<close>. The early return on an
  empty availability filter is kept, although the general path returns \<open>null\<close> there
  too.\<close>

definition selectOptimalFFmpegNode :: "FFmpegNode list \<Rightarrow> RecordingRequirements \<Rightarrow> FFmpegNode option" where
  "selectOptimalFFmpegNode availableNodes requirements =
     (if filter (\<lambda>node. isHealthy node \<and> currentLoad node < capacity node) availableNodes = [] then None
      else
        (let scoredNodes = map (\<lambda>node. (node, calculateNodeScore node requirements))
                               (hardwareFilteredNodes availableNodes requirements)
         in case sortByScore scoredNodes of
              [] \<Rightarrow> None
            | p # _ \<Rightarrow> Some (fst p)))"

section \<open>The orchestrator state (OrchestrationService.ts)\<close>

text \<open>
  A \<open>Map\<close> of nodes is the list of its values in insertion order; the key of a node is
  its \<open>nodeId\<close> (both registration and restore use the node's own id as key). Job
  objects are shared between the active-jobs map, the pending queue and the loops that
  hold them, so they live in a store: \<open>jobHeap\<close> gives the object of each job
  identifier, \<open>activeJobIds\<close> are the keys of the map \<open>activeJobs\<close> in insertion order,
  and \<open>jobQueue\<close> holds references. The identifier of a job is its address in the
  store (the source generates it once and uses it as key), so the record has no
  \<open>jobId\<close> field. \<open>portAllocations\<close> is the table of the node manager.

  Outbound calls go to the outside world: \<open>respond\<close> answers a call given the calls made
  so far, \<open>dbError\<close> is the error a write of a job to the database throws, if any. Each
  call is appended to \<open>rpcLog\<close>. An operation runs to its end without interleaving
  with another one, and reads the clock once. Emitted events, log lines and
  broadcasts to subscribers change no state that the operations read and are left
  out.
\<close>

datatype rpc =
    AllocatePorts string nat
  | ConfigureRtpForwarding string string RTPForwardingConfig
  | StartRecording string string
  | StopRecording string string
  | StopRtpForwarding string string

text \<open>\<open>Ok\<close> carries the \<open>ports\<close> of the JSON body (read after \<open>allocate-ports\<close> only),
  \<open>NotOk\<close> the status text of a response that is not 2xx, \<open>Rejected\<close> the message of
  the error \<open>fetch\<close> throws (refused connection, timeout).\<close>

datatype response = Ok "nat list" | NotOk string | Rejected string

record World =
  respond :: "rpc list \<Rightarrow> rpc \<Rightarrow> response"
  dbError :: "rpc list \<Rightarrow> string \<Rightarrow> string option"

record OrchState =
  roomServers :: "RoomServerNode list"
  ffmpegNodes :: "FFmpegNode list"
  jobHeap :: "string \<Rightarrow> DistributedRecordingJob"
  activeJobIds :: "string list"
  jobQueue :: "string list"
  portAllocations :: "string \<Rightarrow> nat set option"
  rpcLog :: "rpc list"

text \<open>\<open>Map.get\<close>, \<open>Map.set\<close> (an existing key keeps its place, a new one goes last) and a
  write through a reference to a node object.\<close>

definition mapGet :: "string \<Rightarrow> ('a Node_scheme) list \<Rightarrow> 'a Node_scheme option" where
  "mapGet k ns = find (\<lambda>n. nodeId n = k) ns"

fun mapSet :: "'a Node_scheme \<Rightarrow> ('a Node_scheme) list \<Rightarrow> ('a Node_scheme) list" where
  "mapSet n [] = [n]"
| "mapSet n (m # ms) = (if nodeId m = nodeId n then n # ms else m # mapSet n ms)"

definition modifyNode :: "string \<Rightarrow> ('a Node_scheme \<Rightarrow> 'a Node_scheme) \<Rightarrow> ('a Node_scheme) list \<Rightarrow> ('a Node_scheme) list" where
  "modifyNode k f ns = map (\<lambda>n. if nodeId n = k then f n else n) ns"

definition updJob :: "string \<Rightarrow> (DistributedRecordingJob \<Rightarrow> DistributedRecordingJob) \<Rightarrow> OrchState \<Rightarrow> OrchState" where
  "updJob j f st = st\<lparr>jobHeap := (jobHeap st)(j := f (jobHeap st j))\<rparr>"

definition fetch :: "World \<Rightarrow> rpc \<Rightarrow> OrchState \<Rightarrow> response \<times> OrchState" where
  "fetch w call st = (respond w (rpcLog st) call, st\<lparr>rpcLog := rpcLog st @ [call]\<rparr>)"

subsection \<open>Registration and heartbeats\<close>

record RoomServerRegistration =
  regServerId :: string
  regUrl :: string
  regRegion :: string
  regRooms :: "string list option"
  regCapacity :: number
  regSpecs :: NodeSpecs

record FFmpegNodeRegistration =
  fregUrl :: string
  fregRegion :: string
  fregSpecs :: NodeSpecs
  fregSupportedCodecs :: "string list option"

definition registerRoomServer :: "int \<Rightarrow> RoomServerRegistration \<Rightarrow> OrchState \<Rightarrow> OrchState" where
  "registerRoomServer now registration st =
     (let roomServer = \<lparr>nodeId = regServerId registration, url = regUrl registration,
                         region = regRegion registration, capacity = regCapacity registration,
                         currentLoad = 0, isHealthy = True, lastHeartbeat = now,
                         specs = regSpecs registration,
                         rooms = (case regRooms registration of None \<Rightarrow> [] | Some rs \<Rightarrow> rs)\<rparr>
      in st\<lparr>roomServers := mapSet roomServer (roomServers st)\<rparr>)"

text \<open>\<open>registerFFmpegNode\<close>; \<open>newId\<close> is the generated identifier
  \<open>ffmpeg-<region>-<millis>-<random>\<close>.\<close>

definition registerFFmpegNode :: "int \<Rightarrow> string \<Rightarrow> FFmpegNodeRegistration \<Rightarrow> OrchState \<Rightarrow> OrchState" where
  "registerFFmpegNode now newId registration st =
     (let ffmpegNode = \<lparr>nodeId = newId, url = fregUrl registration,
                         region = fregRegion registration,
                         capacity = calculateNodeCapacity (fregSpecs registration),
                         currentLoad = 0, isHealthy = True, lastHeartbeat = now,
                         specs = fregSpecs registration,
                         supportedCodecs = (case fregSupportedCodecs registration of
                                              None \<Rightarrow> [''h264'', ''vp8'', ''opus'']
                                            | Some cs \<Rightarrow> cs),
                         activeJobs = []\<rparr>
      in st\<lparr>ffmpegNodes := mapSet ffmpegNode (ffmpegNodes st)\<rparr>)"

text \<open>The heartbeat payloads. \<open>data.currentLoad || node.currentLoad\<close> keeps the old load
  when the reported one is absent or \<open>0\<close>; an array is truthy even when empty.\<close>

record RoomServerHeartbeat =
  hbLoad :: "number option"
  hbRooms :: "string list option"

record FFmpegNodeHeartbeat =
  fhbLoad :: "number option"
  fhbActiveJobs :: "string list option"

definition orElse :: "number option \<Rightarrow> number \<Rightarrow> number" where
  "orElse reported old = (case reported of None \<Rightarrow> old | Some v \<Rightarrow> if v = 0 then old else v)"

definition updateRoomServerHeartbeat :: "int \<Rightarrow> string \<Rightarrow> RoomServerHeartbeat \<Rightarrow> OrchState \<Rightarrow> OrchState" where
  "updateRoomServerHeartbeat now serverId hb st =
     st\<lparr>roomServers := modifyNode serverId
          (\<lambda>roomServer. roomServer\<lparr>lastHeartbeat := now,
                                     currentLoad := orElse (hbLoad hb) (currentLoad roomServer),
                                     rooms := (case hbRooms hb of None \<Rightarrow> rooms roomServer | Some rs \<Rightarrow> rs),
                                     isHealthy := True\<rparr>)
          (roomServers st)\<rparr>"

definition updateFFmpegNodeHeartbeat :: "int \<Rightarrow> string \<Rightarrow> FFmpegNodeHeartbeat \<Rightarrow> OrchState \<Rightarrow> OrchState" where
  "updateFFmpegNodeHeartbeat now k hb st =
     st\<lparr>ffmpegNodes := modifyNode k
          (\<lambda>ffmpegNode. ffmpegNode\<lparr>lastHeartbeat := now,
                                     currentLoad := orElse (fhbLoad hb) (currentLoad ffmpegNode),
                                     activeJobs := (case fhbActiveJobs hb of
                                                      None \<Rightarrow> activeJobs ffmpegNode
                                                    | Some js \<Rightarrow> js),
                                     isHealthy := True\<rparr>)
          (ffmpegNodes st)\<rparr>"

subsection \<open>The node manager's port table (NodeManager.ts)\<close>

definition releasePorts :: "string \<Rightarrow> nat list \<Rightarrow> OrchState \<Rightarrow> OrchState" where
  "releasePorts k ps st =
     (case portAllocations st k of
        None \<Rightarrow> st
      | Some allocatedPorts \<Rightarrow>
          st\<lparr>portAllocations := (portAllocations st)(k \<mapsto> allocatedPorts - set ps)\<rparr>)"

subsection \<open>Utility methods\<close>

text \<open>\<open>[...new Set(rtpStreams.map(stream => stream.codecName))]\<close>: the first occurrence of
  each codec, in order.\<close>

definition extractCodecRequirements :: "RTPStreamInfo list \<Rightarrow> string list" where
  "extractCodecRequirements streams = rev (remdups (rev (map codecName streams)))"

definition estimateRecordingLoad :: "RTPStreamInfo list \<Rightarrow> RecordingOptions \<Rightarrow> number" where
  "estimateRecordingLoad streams opts =
     (if list_ex (\<lambda>s. kind s = video) streams
      then 1 + (case quality opts of high \<Rightarrow> 2 | medium \<Rightarrow> 1 | low \<Rightarrow> 1 / 2)
      else 1)"

text \<open>\<open>url.match(/^https?:\/\/([^:\/]+)/)\<close>, with \<open>localhost\<close> when there is no match.\<close>

definition extractIPFromURL :: "string \<Rightarrow> string" where
  "extractIPFromURL u =
     (let rest = (if take 7 u = ''http://'' then Some (drop 7 u)
                  else if take 8 u = ''https://'' then Some (drop 8 u)
                  else None)
      in case rest of
           None \<Rightarrow> ''localhost''
         | Some r \<Rightarrow>
             (let host = takeWhile (\<lambda>c. c \<noteq> CHR '':'' \<and> c \<noteq> CHR ''/'') r
              in if host = [] then ''localhost'' else host))"

text \<open>\<open>rtpPorts[index]\<close>, \<open>undefined\<close> past the end.\<close>

definition portAt :: "nat list \<Rightarrow> nat \<Rightarrow> nat option" where
  "portAt rtpPorts i = (if i < length rtpPorts then Some (rtpPorts ! i) else None)"

subsection \<open>Assignment\<close>

text \<open>A thrown \<open>Error\<close> is \<open>Inl\<close> of its message.\<close>

definition allocateRTPPorts :: "World \<Rightarrow> FFmpegNode \<Rightarrow> nat \<Rightarrow> OrchState \<Rightarrow> (string + nat list) \<times> OrchState" where
  "allocateRTPPorts w ffmpegNode count st =
     (case fetch w (AllocatePorts (url ffmpegNode) count) st of
        (Rejected m, st1) \<Rightarrow> (Inl m, st1)
      | (NotOk _, st1) \<Rightarrow> (Inl ''Failed to allocate RTP ports'', st1)
      | (Ok ps, st1) \<Rightarrow> (Inr ps, st1))"

text \<open>The \<open>forwardingConfig\<close> that \<open>setupRTPForwarding\<close> builds from the allocated ports.\<close>

definition forwardingConfigOf :: "string \<Rightarrow> DistributedRecordingJob \<Rightarrow> FFmpegNode \<Rightarrow> nat list \<Rightarrow> RTPForwardingConfig" where
  "forwardingConfigOf j job ffmpegNode rtpPorts =
     \<lparr>cfgJobId = j, cfgPeerId = peerId job,
      targetNode = \<lparr>ip = extractIPFromURL (url ffmpegNode), ports = rtpPorts\<rparr>,
      cfgRtpStreams = map (\<lambda>(index, stream). stream\<lparr>port := portAt rtpPorts index\<rparr>)
                          (enumerate 0 (rtpStreams job))\<rparr>"

definition setupRTPForwarding :: "World \<Rightarrow> string \<Rightarrow> RoomServerNode \<Rightarrow> FFmpegNode \<Rightarrow> OrchState \<Rightarrow> (string + unit) \<times> OrchState" where
  "setupRTPForwarding w j roomServer ffmpegNode st =
     (let job = jobHeap st j in
      case allocateRTPPorts w ffmpegNode (length (rtpStreams job)) st of
        (Inl e, st1) \<Rightarrow> (Inl e, st1)
      | (Inr rtpPorts, st1) \<Rightarrow>
          (let forwardingConfig = forwardingConfigOf j job ffmpegNode rtpPorts
           in case fetch w (ConfigureRtpForwarding (url roomServer) j forwardingConfig) st1 of
                (Rejected m, st2) \<Rightarrow> (Inl m, st2)
              | (NotOk statusText, st2) \<Rightarrow>
                  (Inl (''Failed to configure RTP forwarding: '' @ statusText), st2)
              | (Ok _, st2) \<Rightarrow>
                  (Inr (), updJob j (\<lambda>job. job\<lparr>rtpForwarding := Some forwardingConfig\<rparr>) st2)))"

text \<open>\<open>startRecordingOnNode\<close>. Reading \<open>job.rtpForwarding!.rtpStreams\<close> of a job without
  forwarding configuration throws a \<open>TypeError\<close> before any call is made.\<close>

definition startRecordingOnNode :: "World \<Rightarrow> string \<Rightarrow> FFmpegNode \<Rightarrow> OrchState \<Rightarrow> (string + unit) \<times> OrchState" where
  "startRecordingOnNode w j ffmpegNode st =
     (case rtpForwarding (jobHeap st j) of
        None \<Rightarrow> (Inl ''TypeError: cannot read properties of undefined'', st)
      | Some _ \<Rightarrow>
          (case fetch w (StartRecording (url ffmpegNode) j) st of
             (Rejected m, st1) \<Rightarrow> (Inl m, st1)
           | (NotOk statusText, st1) \<Rightarrow>
               (Inl (''Failed to start recording on FFmpeg node: '' @ statusText), st1)
           | (Ok _, st1) \<Rightarrow> (Inr (), st1)))"

text \<open>The \<open>catch\<close> block of \<open>assignJobToNode\<close>.\<close>

definition assignFailed :: "string \<Rightarrow> string \<Rightarrow> OrchState \<Rightarrow> OrchState" where
  "assignFailed j e st = updJob j (\<lambda>job. job\<lparr>status := failed, errorMessage := Some e\<rparr>) st"

definition assignJobToNode :: "World \<Rightarrow> string \<Rightarrow> FFmpegNode \<Rightarrow> RoomServerNode \<Rightarrow> OrchState \<Rightarrow> OrchState" where
  "assignJobToNode w j ffmpegNode roomServer st =
     (let st0 = updJob j (\<lambda>job. job\<lparr>status := initializing, ffmpegNodeId := nodeId ffmpegNode\<rparr>) st in
      case setupRTPForwarding w j roomServer ffmpegNode st0 of
        (Inl e, st1) \<Rightarrow> assignFailed j e st1
      | (Inr _, st1) \<Rightarrow>
          (case startRecordingOnNode w j ffmpegNode st1 of
             (Inl e, st2) \<Rightarrow> assignFailed j e st2
           | (Inr _, st2) \<Rightarrow>
               (let st3 = st2\<lparr>roomServers := modifyNode (nodeId roomServer)
                                 (\<lambda>r. r\<lparr>currentLoad := currentLoad r + 1\<rparr>) (roomServers st2)\<rparr>;
                    st4 = st3\<lparr>ffmpegNodes := modifyNode (nodeId ffmpegNode)
                                 (\<lambda>n. n\<lparr>currentLoad := currentLoad n + 1,
                                         activeJobs := activeJobs n @ [j]\<rparr>) (ffmpegNodes st3)\<rparr>;
                    st5 = updJob j (\<lambda>job. job\<lparr>status := recording\<rparr>) st4
                in case dbError w (rpcLog st5) j of
                     Some e \<Rightarrow> assignFailed j e st5
                   | None \<Rightarrow> st5)))"

subsection \<open>Start and stop\<close>

record DistributedRecordingRequest =
  rqRoomServerId :: string
  rqRoomId :: string
  rqPeerId :: string
  rqPeerInfo :: PeerInfo
  rqRtpStreams :: "RTPStreamInfo list"
  rqOptions :: RecordingOptions

text \<open>\<open>startDistributedRecording\<close>; \<open>newId\<close> is the generated identifier
  \<open>rec-<millis>-<random>\<close>, the address of the new job object.\<close>

definition startDistributedRecording :: "World \<Rightarrow> int \<Rightarrow> string \<Rightarrow> DistributedRecordingRequest \<Rightarrow> OrchState \<Rightarrow> (string + string) \<times> OrchState" where
  "startDistributedRecording w now newId request st =
     (case mapGet (rqRoomServerId request) (roomServers st) of
        None \<Rightarrow> (Inl (''Room server '' @ rqRoomServerId request @ '' is not available''), st)
      | Some roomServer \<Rightarrow>
          if \<not> isHealthy roomServer
          then (Inl (''Room server '' @ rqRoomServerId request @ '' is not available''), st)
          else
            (let job = \<lparr>roomServerId = rqRoomServerId request, roomId = rqRoomId request,
                        peerId = rqPeerId request, peerInfo = rqPeerInfo request,
                        ffmpegNodeId = [], rtpStreams = rqRtpStreams request,
                        rtpForwarding = None, options = rqOptions request,
                        status = pending, startTime = now, endTime = None,
                        outputPath = None, errorMessage = None\<rparr>;
                 st0 = st\<lparr>jobHeap := (jobHeap st)(newId := job)\<rparr>;
                 selectedNode = selectOptimalFFmpegNode (ffmpegNodes st0)
                                  \<lparr>reqRegion = region roomServer,
                                   codecRequirements = extractCodecRequirements (rqRtpStreams request),
                                   estimatedLoad = estimateRecordingLoad (rqRtpStreams request) (rqOptions request),
                                   preferGPU = False, minCPUCores = None, minRAM = None\<rparr>;
                 st1 = (case selectedNode of
                          Some node \<Rightarrow> assignJobToNode w newId node roomServer st0
                        | None \<Rightarrow> st0\<lparr>jobQueue := jobQueue st0 @ [newId]\<rparr>);
                 st2 = st1\<lparr>activeJobIds := (if newId \<in> set (activeJobIds st1) then activeJobIds st1
                                             else activeJobIds st1 @ [newId])\<rparr>
             in case dbError w (rpcLog st2) newId of
                  Some e \<Rightarrow> (Inl e, st2)
                | None \<Rightarrow> (Inr newId, st2)))"

definition stopRecordingOnNode :: "World \<Rightarrow> string \<Rightarrow> FFmpegNode \<Rightarrow> OrchState \<Rightarrow> (string + unit) \<times> OrchState" where
  "stopRecordingOnNode w j ffmpegNode st =
     (case fetch w (StopRecording (url ffmpegNode) j) st of
        (Rejected m, st1) \<Rightarrow> (Inl m, st1)
      | (NotOk _, st1) \<Rightarrow> (Inr (), st1)
      | (Ok _, st1) \<Rightarrow>
          (Inr (), st1\<lparr>ffmpegNodes := modifyNode (nodeId ffmpegNode)
                         (\<lambda>n. n\<lparr>currentLoad := max 0 (currentLoad n - 1),
                                 activeJobs := filter (\<lambda>i. i \<noteq> j) (activeJobs n)\<rparr>)
                         (ffmpegNodes st1)\<rparr>))"

definition stopRTPForwarding :: "World \<Rightarrow> string \<Rightarrow> RoomServerNode \<Rightarrow> OrchState \<Rightarrow> (string + unit) \<times> OrchState" where
  "stopRTPForwarding w j roomServer st =
     (case fetch w (StopRtpForwarding (url roomServer) j) st of
        (Rejected m, st1) \<Rightarrow> (Inl m, st1)
      | (NotOk _, st1) \<Rightarrow> (Inr (), st1)
      | (Ok _, st1) \<Rightarrow>
          (Inr (), st1\<lparr>roomServers := modifyNode (nodeId roomServer)
                         (\<lambda>r. r\<lparr>currentLoad := max 0 (currentLoad r - 1)\<rparr>)
                         (roomServers st1)\<rparr>))"

text \<open>The \<open>catch\<close> block of \<open>stopDistributedRecording\<close>; the error is thrown again.\<close>

definition stopFailed :: "int \<Rightarrow> string \<Rightarrow> string \<Rightarrow> OrchState \<Rightarrow> (string + string) \<times> OrchState" where
  "stopFailed now j e st =
     (Inl e, updJob j (\<lambda>job. job\<lparr>status := failed, errorMessage := Some e, endTime := Some now\<rparr>) st)"

text \<open>The three steps of the \<open>try\<close> block of \<open>stopDistributedRecording\<close>: the stop on
  the recorder (when the job's recorder is registered), the stop on the room server
  (when it is registered), and the completion with its database write.\<close>

definition stopNodeStep :: "World \<Rightarrow> string \<Rightarrow> OrchState \<Rightarrow> (string + unit) \<times> OrchState" where
  "stopNodeStep w j st =
     (case mapGet (ffmpegNodeId (jobHeap st j)) (ffmpegNodes st) of
        Some ffmpegNode \<Rightarrow> stopRecordingOnNode w j ffmpegNode st
      | None \<Rightarrow> (Inr (), st))"

definition stopServerStep :: "World \<Rightarrow> string \<Rightarrow> OrchState \<Rightarrow> (string + unit) \<times> OrchState" where
  "stopServerStep w j st =
     (case mapGet (roomServerId (jobHeap st j)) (roomServers st) of
        Some roomServer \<Rightarrow> stopRTPForwarding w j roomServer st
      | None \<Rightarrow> (Inr (), st))"

definition stopFinish :: "World \<Rightarrow> int \<Rightarrow> string \<Rightarrow> OrchState \<Rightarrow> (string + string) \<times> OrchState" where
  "stopFinish w now j st =
     (let st3 = updJob j (\<lambda>job. job\<lparr>status := completed, endTime := Some now\<rparr>) st in
      case dbError w (rpcLog st3) j of
        Some e \<Rightarrow> stopFailed now j e st3
      | None \<Rightarrow>
          (Inr (case outputPath (jobHeap st3 j) of
                  None \<Rightarrow> ''Recording '' @ j @ '' completed''
                | Some p \<Rightarrow> if p = [] then ''Recording '' @ j @ '' completed'' else p),
           st3\<lparr>activeJobIds := removeAll j (activeJobIds st3)\<rparr>))"

definition stopDistributedRecording :: "World \<Rightarrow> int \<Rightarrow> string \<Rightarrow> OrchState \<Rightarrow> (string + string) \<times> OrchState" where
  "stopDistributedRecording w now j st =
     (if j \<notin> set (activeJobIds st) then (Inl (''Recording job '' @ j @ '' not found''), st)
      else
        (case stopNodeStep w j st of
           (Inl e, st1) \<Rightarrow> stopFailed now j e st1
         | (Inr _, st1) \<Rightarrow>
             (case stopServerStep w j st1 of
                (Inl e, st2) \<Rightarrow> stopFailed now j e st2
              | (Inr _, st2) \<Rightarrow> stopFinish w now j st2)))"

subsection \<open>Health monitoring\<close>

text \<open>The body of the loop over \<open>affectedJobs\<close> in \<open>handleUnhealthyRoomServer\<close>; the
  rejection of the stop call is swallowed by \<open>.catch(() => {})\<close>.\<close>

definition failRoomServerJob :: "World \<Rightarrow> int \<Rightarrow> string \<Rightarrow> OrchState \<Rightarrow> OrchState" where
  "failRoomServerJob w now j st =
     (let st1 = updJob j (\<lambda>job. job\<lparr>status := failed,
                                      errorMessage := Some ''Room server became unhealthy'',
                                      endTime := Some now\<rparr>) st
      in case mapGet (ffmpegNodeId (jobHeap st1 j)) (ffmpegNodes st1) of
           Some ffmpegNode \<Rightarrow> snd (stopRecordingOnNode w j ffmpegNode st1)
         | None \<Rightarrow> st1)"

definition handleUnhealthyRoomServer :: "World \<Rightarrow> int \<Rightarrow> string \<Rightarrow> OrchState \<Rightarrow> OrchState" where
  "handleUnhealthyRoomServer w now k st =
     (let st1 = st\<lparr>roomServers := modifyNode k (\<lambda>r. r\<lparr>isHealthy := False\<rparr>) (roomServers st)\<rparr>;
          affectedJobs = filter (\<lambda>j. roomServerId (jobHeap st1 j) = k \<and> status (jobHeap st1 j) = recording)
                                (activeJobIds st1)
      in fold (failRoomServerJob w now) affectedJobs st1)"

text \<open>The body of the loop over \<open>affectedJobs\<close> in \<open>handleUnhealthyFFmpegNode\<close>.\<close>

definition reassignJob :: "World \<Rightarrow> int \<Rightarrow> string \<Rightarrow> string \<Rightarrow> OrchState \<Rightarrow> OrchState" where
  "reassignJob w now k j st =
     (let job = jobHeap st j;
          newNode = selectOptimalFFmpegNode
                      (filter (\<lambda>n. isHealthy n \<and> nodeId n \<noteq> k) (ffmpegNodes st))
                      \<lparr>reqRegion = (if displayName (peerInfo job) = [] then ''default''
                                    else displayName (peerInfo job)),
                       codecRequirements = extractCodecRequirements (rtpStreams job),
                       estimatedLoad = 1,
                       preferGPU = False, minCPUCores = None, minRAM = None\<rparr>
      in case newNode of
           Some node \<Rightarrow>
             (case mapGet (roomServerId job) (roomServers st) of
                Some roomServer \<Rightarrow>
                  assignJobToNode w j node roomServer
                    (updJob j (\<lambda>job. job\<lparr>status := pending, ffmpegNodeId := []\<rparr>) st)
              | None \<Rightarrow> st)
         | None \<Rightarrow>
             updJob j (\<lambda>job. job\<lparr>status := failed,
                                  errorMessage := Some ''No available FFmpeg nodes for reassignment'',
                                  endTime := Some now\<rparr>) st)"

definition handleUnhealthyFFmpegNode :: "World \<Rightarrow> int \<Rightarrow> string \<Rightarrow> OrchState \<Rightarrow> OrchState" where
  "handleUnhealthyFFmpegNode w now k st =
     (let st1 = st\<lparr>ffmpegNodes := modifyNode k (\<lambda>n. n\<lparr>isHealthy := False\<rparr>) (ffmpegNodes st)\<rparr>;
          affectedJobs = filter (\<lambda>j. ffmpegNodeId (jobHeap st1 j) = k \<and> status (jobHeap st1 j) = recording)
                                (activeJobIds st1)
      in fold (reassignJob w now k) affectedJobs st1)"

text \<open>The loop of \<open>processJobQueue\<close> over the snapshot \<open>this.jobQueue.slice()\<close>;
  \<open>availableNodes\<close> holds references to node objects, read again at each placement.\<close>

fun drainQueue :: "World \<Rightarrow> string list \<Rightarrow> string list \<Rightarrow> OrchState \<Rightarrow> OrchState" where
  "drainQueue w [] availableNodes st = st"
| "drainQueue w (j # js) availableNodes st =
     (case mapGet (roomServerId (jobHeap st j)) (roomServers st) of
        None \<Rightarrow> drainQueue w js availableNodes st
      | Some roomServer \<Rightarrow>
          if \<not> isHealthy roomServer then drainQueue w js availableNodes st
          else
            (case selectOptimalFFmpegNode
                    (List.map_filter (\<lambda>k. mapGet k (ffmpegNodes st)) availableNodes)
                    \<lparr>reqRegion = region roomServer,
                     codecRequirements = extractCodecRequirements (rtpStreams (jobHeap st j)),
                     estimatedLoad = estimateRecordingLoad (rtpStreams (jobHeap st j)) (options (jobHeap st j)),
                     preferGPU = False, minCPUCores = None, minRAM = None\<rparr> of
               None \<Rightarrow> drainQueue w js availableNodes st
             | Some selectedNode \<Rightarrow>
                 drainQueue w js (remove1 (nodeId selectedNode) availableNodes)
                   (assignJobToNode w j selectedNode roomServer
                      (st\<lparr>jobQueue := remove1 j (jobQueue st)\<rparr>))))"

definition processJobQueue :: "World \<Rightarrow> OrchState \<Rightarrow> OrchState" where
  "processJobQueue w st =
     (if jobQueue st = [] then st
      else drainQueue w (jobQueue st)
             (map nodeId (filter (\<lambda>node. isHealthy node \<and> currentLoad node < capacity node) (ffmpegNodes st)))
             st)"

definition performHealthChecks :: "World \<Rightarrow> int \<Rightarrow> OrchState \<Rightarrow> OrchState" where
  "performHealthChecks w now st =
     (let timeoutMs = 60000;
          st1 = fold (\<lambda>k s. case mapGet k (roomServers s) of
                              None \<Rightarrow> s
                            | Some roomServer \<Rightarrow>
                                if now - lastHeartbeat roomServer > timeoutMs
                                then handleUnhealthyRoomServer w now k s else s)
                     (map nodeId (roomServers st)) st;
          st2 = fold (\<lambda>k s. case mapGet k (ffmpegNodes s) of
                              None \<Rightarrow> s
                            | Some ffmpegNode \<Rightarrow>
                                if now - lastHeartbeat ffmpegNode > timeoutMs
                                then handleUnhealthyFFmpegNode w now k s else s)
                     (map nodeId (ffmpegNodes st1)) st1
      in processJobQueue w st2)"

subsection \<open>The transition table of the job model\<close>

text \<open>\<open>isValidStatusTransition\<close> and \<open>isTerminal\<close> of the job model class; the
  orchestrator assigns \<open>job.status\<close> directly and does not call them.\<close>

definition isValidStatusTransition :: "JobStatus \<Rightarrow> JobStatus \<Rightarrow> bool" where
  "isValidStatusTransition currentStatus newStatus =
     (newStatus \<in> set (case currentStatus of
                              pending \<Rightarrow> [initializing, failed, cancelled]
                            | initializing \<Rightarrow> [recording, failed, cancelled]
                            | recording \<Rightarrow> [completed, failed, cancelled]
                            | completed \<Rightarrow> []
                            | failed \<Rightarrow> []
                            | cancelled \<Rightarrow> []))"

definition isTerminal :: "DistributedRecordingJob \<Rightarrow> bool" where
  "isTerminal job = (status job \<in> set [completed, failed, cancelled])"

section \<open>A small fleet, for the concrete evaluations\<close>

text \<open>The recorder of the happy-path scenario (4 cores, 8 GiB, no GPU), under a given
  identifier, region and capacity, with the given active jobs and a load that counts
  them.\<close>

definition exSpecs :: NodeSpecs where
  "exSpecs = \<lparr>cpuCores = 4, ram = 8 * 2 ^ 30, hasGPU = False\<rparr>"

definition exNode :: "string \<Rightarrow> string \<Rightarrow> number \<Rightarrow> string list \<Rightarrow> FFmpegNode" where
  "exNode k r c js =
     \<lparr>nodeId = k, url = ''http://'' @ k @ '':9000'', region = r, capacity = c,
      currentLoad = of_nat (length js), isHealthy = True, lastHeartbeat = 0, specs = exSpecs,
      supportedCodecs = [''h264'', ''vp8'', ''opus''], activeJobs = js\<rparr>"

text \<open>Two loaded recorders of the same region: \<open>ffmpeg-x\<close> with 2 cores, capacity 3 and
  two jobs, \<open>ffmpeg-y\<close> with 5 cores, capacity 7.5 and six jobs.\<close>

definition exSmall :: FFmpegNode where
  "exSmall = (exNode ''ffmpeg-x'' ''us-east-1'' 3 [''rec-1'', ''rec-2''])
               \<lparr>specs := exSpecs\<lparr>cpuCores := 2\<rparr>\<rparr>"

definition exLarge :: FFmpegNode where
  "exLarge = (exNode ''ffmpeg-y'' ''us-east-1'' (15 / 2)
                [''rec-3'', ''rec-4'', ''rec-5'', ''rec-6'', ''rec-7'', ''rec-8''])
               \<lparr>specs := exSpecs\<lparr>cpuCores := 5\<rparr>\<rparr>"

definition exReq :: "string \<Rightarrow> RecordingRequirements" where
  "exReq r = \<lparr>reqRegion = r, codecRequirements = [''vp8'', ''opus''], estimatedLoad = 1,
              preferGPU = False, minCPUCores = None, minRAM = None\<rparr>"

text \<open>The room server \<open>rs1\<close> with a given load, a job with an audio and a video stream
  rooted there, the request that creates it, and a state with one room server.\<close>

definition exRoomServer :: "number \<Rightarrow> RoomServerNode" where
  "exRoomServer l =
     \<lparr>nodeId = ''rs1'', url = ''http://rs1:3000'', region = ''us-east-1'', capacity = 10,
      currentLoad = l, isHealthy = True, lastHeartbeat = 0, specs = exSpecs,
      rooms = [''room-1'']\<rparr>"

definition exStreams :: "RTPStreamInfo list" where
  "exStreams = [\<lparr>kind = audio, port = Some 4000, codecName = ''opus''\<rparr>,
                \<lparr>kind = video, port = Some 4002, codecName = ''vp8''\<rparr>]"

definition exJob :: "string \<Rightarrow> JobStatus \<Rightarrow> DistributedRecordingJob" where
  "exJob k s =
     \<lparr>roomServerId = ''rs1'', roomId = ''room-1'', peerId = ''peer-1'',
      peerInfo = \<lparr>displayName = ''Alice''\<rparr>, ffmpegNodeId = k,
      rtpStreams = exStreams,
      rtpForwarding = None, options = \<lparr>quality = medium\<rparr>, status = s, startTime = 0,
      endTime = None, outputPath = None, errorMessage = None\<rparr>"

definition exRequest :: DistributedRecordingRequest where
  "exRequest = \<lparr>rqRoomServerId = ''rs1'', rqRoomId = ''room-1'', rqPeerId = ''peer-1'',
                 rqPeerInfo = \<lparr>displayName = ''Alice''\<rparr>, rqRtpStreams = exStreams,
                 rqOptions = \<lparr>quality = medium\<rparr>\<rparr>"

definition exState :: "FFmpegNode list \<Rightarrow> number \<Rightarrow> DistributedRecordingJob \<Rightarrow> string list \<Rightarrow> string list \<Rightarrow> OrchState" where
  "exState nodes l job active queue =
     \<lparr>roomServers = [exRoomServer l], ffmpegNodes = nodes, jobHeap = (\<lambda>_. job),
      activeJobIds = active, jobQueue = queue, portAllocations = Map.empty, rpcLog = []\<rparr>"

text \<open>Three worlds: every call answered 2xx (the recorder hands out even ports from
  5000), every call refused, and every call answered 2xx but \<open>start-recording\<close>,
  which answers 503. The database never fails in them.\<close>

definition okWorld :: World where
  "okWorld = \<lparr>respond = (\<lambda>_ call. case call of
                                      AllocatePorts _ n \<Rightarrow> Ok (map (\<lambda>i. 5000 + 2 * i) [0..<n])
                                    | _ \<Rightarrow> Ok []),
              dbError = (\<lambda>_ _. None)\<rparr>"

definition downWorld :: World where
  "downWorld = \<lparr>respond = (\<lambda>_ _. Rejected ''ECONNREFUSED''), dbError = (\<lambda>_ _. None)\<rparr>"

definition startFailsWorld :: World where
  "startFailsWorld = \<lparr>respond = (\<lambda>_ call. case call of
                                      AllocatePorts _ n \<Rightarrow> Ok (map (\<lambda>i. 5000 + 2 * i) [0..<n])
                                    | StartRecording _ _ \<Rightarrow> NotOk ''Service Unavailable''
                                    | _ \<Rightarrow> Ok []),
                      dbError = (\<lambda>_ _. None)\<rparr>"

text \<open>Histories from an idle fleet of one recorder: a start that fails at its first
  call; a start that succeeds; and a failed start after a successful one.\<close>

definition exIdle :: OrchState where
  "exIdle = exState [exNode ''ffmpeg-a'' ''us-east-1'' 6 []] 0 (exJob [] pending) [] []"

definition exAfterFailedStart :: OrchState where
  "exAfterFailedStart = snd (startDistributedRecording downWorld 0 ''rec-1'' exRequest exIdle)"

definition exBusy :: OrchState where
  "exBusy = snd (startDistributedRecording okWorld 0 ''rec-2'' exRequest exIdle)"


definition exCfg :: "string \<Rightarrow> RTPForwardingConfig" where
  "exCfg j = forwardingConfigOf j (exJob [] pending) (exNode ''ffmpeg-a'' ''us-east-1'' 6 []) [5000, 5002]"

definition exSetupLog :: "string \<Rightarrow> rpc list" where
  "exSetupLog j = [AllocatePorts ''http://ffmpeg-a:9000'' 2,
                   ConfigureRtpForwarding ''http://rs1:3000'' j (exCfg j),
                   StartRecording ''http://ffmpeg-a:9000'' j]"


text \<open>A fleet with no recorder: a start is queued, the queued job is stopped, a recorder
  registers, and the queue is drained. And a fleet of three recorders in which the job
  \<open>rec-1\<close> of peer \<open>Alice\<close> records on \<open>ffmpeg-a\<close>, \<open>ffmpeg-b\<close> in the room server's
  region holds three jobs of its four, and \<open>ffmpeg-c\<close> in another region is idle.\<close>

definition exRegistration :: FFmpegNodeRegistration where
  "exRegistration = \<lparr>fregUrl = ''http://ffmpeg-a:9000'', fregRegion = ''us-east-1'',
                      fregSpecs = exSpecs, fregSupportedCodecs = None\<rparr>"

definition exNoRecorder :: OrchState where
  "exNoRecorder = exState [] 0 (exJob [] pending) [] []"

definition exQueued :: OrchState where
  "exQueued = snd (startDistributedRecording okWorld 0 ''rec-1'' exRequest exNoRecorder)"

definition exStoppedInQueue :: OrchState where
  "exStoppedInQueue = snd (stopDistributedRecording okWorld 1 ''rec-1'' exQueued)"

definition exDrained :: OrchState where
  "exDrained = processJobQueue okWorld (registerFFmpegNode 0 ''ffmpeg-a'' exRegistration exStoppedInQueue)"

definition exFailover :: OrchState where
  "exFailover =
     \<lparr>roomServers = [exRoomServer 4],
      ffmpegNodes = [exNode ''ffmpeg-a'' ''us-east-1'' 6 [''rec-1''],
                     exNode ''ffmpeg-b'' ''us-east-1'' 4 [''rec-7'', ''rec-8'', ''rec-9''],
                     exNode ''ffmpeg-c'' ''eu-west-1'' 4 []],
      jobHeap = (\<lambda>_. exJob ''ffmpeg-b'' recording)(''rec-1'' := exJob ''ffmpeg-a'' recording),
      activeJobIds = [''rec-7'', ''rec-8'', ''rec-9'', ''rec-1''], jobQueue = [],
      portAllocations = Map.empty, rpcLog = []\<rparr>"


section \<open>Predicates used in the statements\<close>



definition urlOf :: "string \<Rightarrow> FFmpegNode list \<Rightarrow> string option" where
  "urlOf k ns = map_option url (mapGet k ns)"


text \<open>The invariant of a recorder, \<open>|activeJobs| = currentLoad\<close>, and of the fleet.\<close>

definition loadInv :: "FFmpegNode \<Rightarrow> bool" where
  "loadInv n = (of_nat (length (activeJobs n)) = currentLoad n)"

definition fleetInv :: "OrchState \<Rightarrow> bool" where
  "fleetInv st = list_all loadInv (ffmpegNodes st)"

text \<open>The stopped job occurs exactly once in the active list of every recorder
  registered under the job's recorder identifier.\<close>

definition listedOnce :: "string \<Rightarrow> OrchState \<Rightarrow> bool" where
  "listedOnce j st =
     list_all (\<lambda>n. nodeId n \<noteq> ffmpegNodeId (jobHeap st j) \<or> count_list (activeJobs n) j = 1)
       (ffmpegNodes st)"


section \<open>Properties of the rounding\<close>

lemma floorlog_unique:
  assumes "2 ^ k \<le> n" "n < 2 ^ (k + 1)"
  shows "floorlog 2 n = k + 1"
proof -
  have "(0::nat) < 2 ^ k" by simp
  then have n: "0 < n" using assms(1) by linarith
  from floorlog_bounds [OF n, of 2]
  have b1: "2 ^ (floorlog 2 n - 1) \<le> n" and b2: "n < 2 ^ floorlog 2 n" by auto
  have "(2::nat) ^ k < 2 ^ floorlog 2 n" using assms(1) b2 by linarith
  then have 1: "k < floorlog 2 n" by simp
  have "(2::nat) ^ (floorlog 2 n - 1) < 2 ^ (k + 1)" using assms(2) b1 by linarith
  then have 2: "floorlog 2 n - 1 < k + 1" by (simp only: power_strict_increasing_iff one_less_numeral_iff semiring_norm)
  show ?thesis using 1 2 by linarith
qed

lemma binExp_eq:
  assumes lo: "2 powi e \<le> x" and hi: "x < 2 powi (e + 1)"
  shows "binExp x = e"
proof (cases "1 \<le> x")
  case True
  have e0: "0 \<le> e"
  proof (rule ccontr)
    assume "\<not> 0 \<le> e"
    then have "e + 1 \<le> 0" by simp
    then have "(2::rat) powi (e + 1) \<le> 2 powi 0"
      by (intro power_int_increasing) simp_all
    then have "(2::rat) powi (e + 1) \<le> 1" by simp
    then show False using hi True by linarith
  qed
  define k where "k = nat e"
  have ek: "e = int k" using e0 by (simp add: k_def)
  have lo': "(2::rat) ^ k \<le> x" using lo by (simp add: ek)
  have hi': "x < (2::rat) ^ (k + 1)" using hi by (simp add: ek power_int_add)
  have a: "(2::int) ^ k \<le> \<lfloor>x\<rfloor>" using lo' by (simp add: le_floor_iff)
  have b: "\<lfloor>x\<rfloor> < (2::int) ^ (k + 1)" using hi' by (simp add: floor_less_iff)
  have "2 ^ k \<le> nat \<lfloor>x\<rfloor>" using a by (simp add: le_nat_iff)
  moreover have "nat \<lfloor>x\<rfloor> < 2 ^ (k + 1)" using b nat_less_numeral_power_cancel_iff by blast
  ultimately have "floorlog 2 (nat \<lfloor>x\<rfloor>) = k + 1" by (rule floorlog_unique)
  then show ?thesis using True by (simp add: binExp_def ek)
next
  case False
  have x0: "0 < x" using lo zero_less_power_int [of "2::rat" e] by linarith
  have e0: "e < 0"
  proof (rule ccontr)
    assume "\<not> e < 0"
    then have "0 \<le> e" by simp
    then have "(2::rat) powi 0 \<le> 2 powi e"
      by (intro power_int_increasing) simp_all
    then have "1 \<le> (2::rat) powi e" by simp
    then show False using lo False by linarith
  qed
  define k where "k = nat (- e - 1)"
  have ek: "e = - int k - 1" using e0 by (simp add: k_def)
  have "e = - int (k + 1)" using ek by simp
  then have p1: "(2::rat) powi e = 1 / 2 ^ (k + 1)"
    by (simp only: power_int_minus power_int_of_nat inverse_eq_divide)
  have "e + 1 = - int k" using ek by simp
  then have p2: "(2::rat) powi (e + 1) = 1 / 2 ^ k"
    by (simp only: power_int_minus power_int_of_nat inverse_eq_divide)
  have lo': "1 / x \<le> (2::rat) ^ (k + 1)" using lo x0 unfolding p1 by (simp add: field_simps)
  have hi': "(2::rat) ^ k < 1 / x" using hi x0 unfolding p2 by (simp add: field_simps)
  have a: "\<lceil>1 / x\<rceil> \<le> (2::int) ^ (k + 1)" using lo' by (simp add: ceiling_le_iff)
  have b: "(2::int) ^ k < \<lceil>1 / x\<rceil>" using hi' by (simp add: less_ceiling_iff)
  have c: "\<lceil>1 / x\<rceil> - 1 < (2::int) ^ (k + 1)" using a by linarith
  have "2 ^ k \<le> nat (\<lceil>1 / x\<rceil> - 1)" using b by (simp add: le_nat_iff)
  moreover have "nat (\<lceil>1 / x\<rceil> - 1) < 2 ^ (k + 1)" using c nat_less_numeral_power_cancel_iff by blast
  ultimately have "floorlog 2 (nat (\<lceil>1 / x\<rceil> - 1)) = k + 1" by (rule floorlog_unique)
  then show ?thesis using False by (simp add: binExp_def ek)
qed

lemma roundHalfEven_of_int [simp]: "roundHalfEven (of_int n) = n"
  by (simp add: roundHalfEven_def)

lemma fl_eval:
  assumes "2 powi e \<le> \<bar>x\<bar>" "\<bar>x\<bar> < 2 powi (e + 1)" "- 1022 \<le> e"
  shows "fl x = sgn x * of_int (roundHalfEven (\<bar>x\<bar> / 2 powi (e - 52))) * 2 powi (e - 52)"
proof -
  have "0 < (2::rat) powi e" by simp
  with assms(1) have "0 < \<bar>x\<bar>" by linarith
  then have "x \<noteq> 0" by simp
  moreover have "binExp \<bar>x\<bar> = e" using assms(1,2) by (rule binExp_eq)
  ultimately show ?thesis using assms(3) by (simp add: fl_def Let_def max_def)
qed

lemma fl_exact:
  assumes m: "\<bar>m\<bar> < 2 ^ 53" and e: "- 1074 \<le> e"
  shows "fl (of_int m * 2 powi e) = of_int m * 2 powi e"
proof (cases "m = 0")
  case True
  then show ?thesis by (simp add: fl_def)
next
  case False
  define x :: rat where "x = of_int m * 2 powi e"
  define n where "n = nat \<bar>m\<bar>"
  define b where "b = floorlog 2 n - 1"
  have n0: "0 < n" using False by (simp add: n_def)
  from floorlog_bounds [OF n0, of 2]
  have b1: "2 ^ b \<le> n" and b2: "n < 2 ^ floorlog 2 n" by (auto simp: b_def)
  have "floorlog 2 n \<noteq> 0" using b2 n0 by (cases "floorlog 2 n") auto
  then have fb: "floorlog 2 n = b + 1" by (simp add: b_def)
  have nm: "int n = \<bar>m\<bar>" by (simp add: n_def)
  have "n < 2 ^ 53" using m nat_less_numeral_power_cancel_iff unfolding n_def by blast
  then have "(2::nat) ^ b < 2 ^ 53" using b1 by linarith
  then have "b < 53" by (simp only: power_strict_increasing_iff one_less_numeral_iff semiring_norm)
  then have b52: "b \<le> 52" by simp
  have ax: "\<bar>x\<bar> = of_nat n * 2 powi e"
    by (simp add: x_def abs_mult n_def)
  have pb: "(of_nat (2 ^ k) :: rat) * 2 powi e = 2 powi (int k + e)" for k
    by (simp add: power_int_add)
  have "(of_nat (2 ^ b) :: rat) \<le> of_nat n" using b1 by (simp only: of_nat_le_iff)
  then have "(of_nat (2 ^ b) :: rat) * 2 powi e \<le> of_nat n * 2 powi e"
    by (intro mult_right_mono) simp_all
  then have lo: "2 powi (int b + e) \<le> \<bar>x\<bar>" by (simp only: ax pb)
  have "(of_nat n :: rat) < of_nat (2 ^ (b + 1))" using b2 fb by (simp only: of_nat_less_iff)
  then have "(of_nat n :: rat) * 2 powi e < of_nat (2 ^ (b + 1)) * 2 powi e"
    by (intro mult_strict_right_mono) simp_all
  moreover have "(of_nat (2 ^ (b + 1)) :: rat) * 2 powi e = 2 powi (int b + e + 1)"
    using pb [of "b + 1"] by (simp add: add.commute add.left_commute)
  ultimately have hi: "\<bar>x\<bar> < 2 powi (int b + e + 1)" by (simp only: ax)
  define E where "E = max (int b + e) (- 1022)"
  define d where "d = nat (e - E + 52)"
  have d: "e - E + 52 = int d" using b52 e by (simp add: d_def E_def max_def)
  have x0: "x \<noteq> 0" using False by (simp add: x_def)
  have be: "binExp \<bar>x\<bar> = int b + e" using lo hi by (rule binExp_eq)
  have "\<bar>x\<bar> / 2 powi (E - 52) = of_nat n * 2 powi (e - (E - 52))"
    by (simp add: ax power_int_diff)
  also have "e - (E - 52) = int d" using d by simp
  finally have q: "\<bar>x\<bar> / 2 powi (E - 52) = of_int (int n * 2 ^ d)" by simp
  have "fl x = sgn x * of_int (int n * 2 ^ d) * 2 powi (E - 52)"
    using x0 be q by (simp add: fl_def Let_def E_def del: of_int_mult of_int_power)
  also have "\<dots> = sgn x * of_nat n * (2 powi (int d) * 2 powi (E - 52))" by simp
  also have "2 powi (int d) * 2 powi (E - 52) = (2::rat) powi e"
  proof -
    have "int d + (E - 52) = e" using d by linarith
    then show ?thesis using power_int_add [of "2::rat" "int d" "E - 52"] by simp
  qed
  also have "sgn x * of_nat n = of_int m"
  proof -
    have "sgn ((2::rat) powi e) = 1" by (simp add: sgn_if)
    then have "sgn x = of_int (sgn m)" by (simp add: x_def sgn_mult) (simp add: sgn_if)
    moreover have "(of_nat n :: rat) = of_int \<bar>m\<bar>" by (simp add: n_def)
    moreover have "sgn m * \<bar>m\<bar> = m" by (rule sgn_mult_abs)
    ultimately show ?thesis by (metis of_int_mult)
  qed
  finally show ?thesis by (simp add: x_def)
qed

lemma fl_0 [simp]: "fl 0 = 0"
  by (simp add: fl_def)

lemma fl_minus: "fl (- x) = - fl x"
  by (simp add: fl_def Let_def)

lemma fl_numeral: "(numeral n :: int) < 2 ^ 53 \<Longrightarrow> fl (numeral n) = numeral n"
  using fl_exact [of "numeral n" 0] by simp

lemma fl_1 [simp]: "fl 1 = 1"
  using fl_exact [of 1 0] by simp

lemma fl_numeral_half: "(numeral n :: int) < 2 ^ 53 \<Longrightarrow> fl (numeral n / 2) = numeral n / 2"
  using fl_exact [of "numeral n" "- 1"] by (simp add: field_simps)

lemma fl_numeral_quarter: "(numeral n :: int) < 2 ^ 53 \<Longrightarrow> fl (numeral n / 4) = numeral n / 4"
  using fl_exact [of "numeral n" "- 2"] by (simp add: field_simps power_int_minus)

lemma fl_half [simp]: "fl (1 / 2) = 1 / 2"
  using fl_exact [of 1 "- 1"] by (simp add: field_simps)

lemma fl_quarter [simp]: "fl (1 / 4) = 1 / 4"
  using fl_exact [of 1 "- 2"] by (simp add: field_simps power_int_minus)

lemma floor_numeral_div: "\<lfloor>numeral a / numeral b :: rat\<rfloor> = numeral a div numeral b"
  using floor_divide_of_int_eq [of "numeral a" "numeral b", where ?'a = rat] by simp

lemmas fl_eval_defs = roundHalfEven_def Let_def power_int_minus floor_numeral_div

lemmas fl_simps = fl_numeral fl_numeral_half fl_numeral_quarter fl_minus

text \<open>The roundings that occur in the scores of the recorders \<open>exSmall\<close> and \<open>exLarge\<close>.\<close>

lemma fl_step1: "fl (1 / 3) = 6004799503160661 / 18014398509481984"
  by (subst fl_eval [of "- 2"]) (simp_all add: fl_eval_defs)

lemma fl_step2: "fl (30023997515803305 / 2251799813685248) = 3752999689475413 / 281474976710656"
  by (subst fl_eval [of 3]) (simp_all add: fl_eval_defs)

lemma fl_step3: "fl (3752999689475413 / 281474976710656) = 3752999689475413 / 281474976710656"
  by (subst fl_eval [of 3]) (simp_all add: fl_eval_defs)

lemma fl_step4: "fl (10789874107241813 / 281474976710656) = 2697468526810453 / 70368744177664"
  by (subst fl_eval [of 5]) (simp_all add: fl_eval_defs)

lemma fl_step5: "fl (3401155968587093 / 70368744177664) = 3401155968587093 / 70368744177664"
  by (subst fl_eval [of 5]) (simp_all add: fl_eval_defs)

lemma fl_step6: "fl (3682630945297749 / 70368744177664) = 3682630945297749 / 70368744177664"
  by (subst fl_eval [of 5]) (simp_all add: fl_eval_defs)

lemma fl_step7: "fl (2 / 3) = 6004799503160661 / 9007199254740992"
  by (subst fl_eval [of "- 1"]) (simp_all add: fl_eval_defs)

lemma fl_step8: "fl (30023997515803305 / 9007199254740992) = 3752999689475413 / 1125899906842624"
  by (subst fl_eval [of 1]) (simp_all add: fl_eval_defs)

lemma fl_step9: "fl (55169095435288571 / 1125899906842624) = 6896136929411071 / 140737488355328"
  by (subst fl_eval [of 5]) (simp_all add: fl_eval_defs)

lemma fl_step10: "fl (7599824371187711 / 140737488355328) = 7599824371187711 / 140737488355328"
  by (subst fl_eval [of 5]) (simp_all add: fl_eval_defs)

lemma fl_step11: "fl (1 / 5) = 3602879701896397 / 18014398509481984"
  by (subst fl_eval [of "- 3"]) (simp_all add: fl_eval_defs)

lemma fl_step12: "fl (18014398509481985 / 2251799813685248) = 8"
  by (subst fl_eval [of 3]) (simp_all add: fl_eval_defs)

lemma fl_step13: "fl (4 / 5) = 3602879701896397 / 4503599627370496"
  by (subst fl_eval [of "- 1"]) (simp_all add: fl_eval_defs)

lemma fl_step14: "fl (18014398509481985 / 4503599627370496) = 4"
  by (subst fl_eval [of 2]) (simp_all add: fl_eval_defs)

lemmas fl_steps = fl_step1 fl_step2 fl_step3 fl_step4 fl_step5 fl_step6 fl_step7 fl_step8 fl_step9 fl_step10 fl_step11 fl_step12 fl_step13 fl_step14

section \<open>Properties of the placement and of the capacity\<close>

lemma hd_insort_key:
  "insort_key f x ys = (if ys = [] \<or> f x \<le> f (hd ys) then x # ys
                        else hd ys # insort_key f x (tl ys))"
  by (cases ys) auto


text \<open>The head of a stable ascending sort is the first element of least key.\<close>

lemma hd_sort_key_first_min:
  "xs \<noteq> [] \<Longrightarrow>
     \<exists>pre post. xs = pre @ hd (sort_key f xs) # post
       \<and> (\<forall>y\<in>set pre. f (hd (sort_key f xs)) < f y)
       \<and> (\<forall>y\<in>set post. f (hd (sort_key f xs)) \<le> f y)"
proof (induction xs)
  case Nil
  then show ?case by simp
next
  case (Cons x xs)
  show ?case
  proof (cases "xs = []")
    case True
    then show ?thesis by (intro exI [of _ "[]"]) simp
  next
    case False
    define h where "h = hd (sort_key f xs)"
    from Cons.IH [OF False] obtain pre post where
      dec: "xs = pre @ h # post" and
      lt: "\<forall>y\<in>set pre. f h < f y" and le: "\<forall>y\<in>set post. f h \<le> f y"
      unfolding h_def by blast
    have ne: "sort_key f xs \<noteq> []" using False by (metis length_0_conv length_sort)
    have all: "\<forall>y\<in>set xs. f h \<le> f y"
      using dec lt le by (metis Un_iff insert_iff less_imp_le list.simps(15) order_refl set_append)
    show ?thesis
    proof (cases "f x \<le> f h")
      case True
      then have "hd (sort_key f (x # xs)) = x"
        using ne by (simp add: hd_insort_key h_def)
      moreover have "\<forall>y\<in>set xs. f x \<le> f y" using True all by auto
      ultimately show ?thesis by (intro exI [of _ "[]"] exI [of _ xs]) simp
    next
      case False
      then have "hd (sort_key f (x # xs)) = h"
        using ne by (simp add: hd_insort_key h_def)
      moreover have "x # xs = (x # pre) @ h # post" using dec by simp
      moreover have "\<forall>y\<in>set (x # pre). f h < f y" using lt False by auto
      ultimately show ?thesis using le by metis
    qed
  qed
qed

lemma insort_key_map:
  "insort_key f (g x) (map g xs) = map g (insort_key (\<lambda>a. f (g a)) x xs)"
  by (induction xs) auto

lemma sort_key_map: "sort_key f (map g xs) = map g (sort_key (\<lambda>a. f (g a)) xs)"
  by (induction xs) (auto simp: insort_key_map)

lemma select_eq:
  "selectOptimalFFmpegNode nodes req =
     (if hardwareFilteredNodes nodes req = [] then None
      else Some (hd (sort_key (\<lambda>n. - calculateNodeScore n req) (hardwareFilteredNodes nodes req))))"
proof -
  let ?cs = "hardwareFilteredNodes nodes req"
  let ?g = "\<lambda>node. (node, calculateNodeScore node req)"
  have e: "filter (\<lambda>node. isHealthy node \<and> currentLoad node < capacity node) nodes = [] \<Longrightarrow> ?cs = []"
    by (simp add: hardwareFilteredNodes_def Let_def split: option.splits)
  have s: "sortByScore (map ?g ?cs) = map ?g (sort_key (\<lambda>n. - calculateNodeScore n req) ?cs)"
    by (simp add: sortByScore_def sort_key_map)
  show ?thesis
  proof (cases "?cs = []")
    case True
    then show ?thesis by (simp add: selectOptimalFFmpegNode_def Let_def sortByScore_def)
  next
    case False
    then have ne: "sort_key (\<lambda>n. - calculateNodeScore n req) ?cs \<noteq> []"
      by (metis length_0_conv length_sort)
    have "filter (\<lambda>node. isHealthy node \<and> currentLoad node < capacity node) nodes \<noteq> []"
      using e False by blast
    then show ?thesis using False ne
      by (cases "sort_key (\<lambda>n. - calculateNodeScore n req) ?cs")
         (simp_all add: selectOptimalFFmpegNode_def Let_def s)
  qed
qed

lemmas placement_defs =
  selectOptimalFFmpegNode_def hardwareFilteredNodes_def sortByScore_def
  calculateNodeScore_def codecMatch_def exNode_def exReq_def exSpecs_def Let_def fl_simps

text \<open>
  The rounding decides a placement. In exact arithmetic \<open>ffmpeg-x\<close> and \<open>ffmpeg-y\<close> both
  score 54; in doubles \<open>ffmpeg-x\<close> scores \<open>53.99999999999999\<close> (the quotients \<open>1/3\<close> and
  \<open>2/3\<close> are rounded) and \<open>ffmpeg-y\<close> scores 54, so \<open>ffmpeg-y\<close> is selected in either
  order of the list.
\<close>

lemma score_rounding_example:
  "calculateNodeScore exSmall (exReq ''us-east-1'') = 7599824371187711 / 140737488355328"
  "calculateNodeScore exLarge (exReq ''us-east-1'') = 54"
  by (simp_all add: exSmall_def exLarge_def calculateNodeScore_def codecMatch_def exNode_def
        exReq_def exSpecs_def Let_def fl_simps fl_steps)

lemma candidates_rounding_example:
  "hardwareFilteredNodes [exSmall, exLarge] (exReq ''us-east-1'') = [exSmall, exLarge]"
  "hardwareFilteredNodes [exLarge, exSmall] (exReq ''us-east-1'') = [exLarge, exSmall]"
  by (simp_all add: hardwareFilteredNodes_def exSmall_def exLarge_def exNode_def exReq_def
        exSpecs_def codecMatch_def Let_def)

lemma select_rounding_example:
  "selectOptimalFFmpegNode [exSmall, exLarge] (exReq ''us-east-1'') = Some exLarge"
  "selectOptimalFFmpegNode [exLarge, exSmall] (exReq ''us-east-1'') = Some exLarge"
  by (simp_all add: select_eq candidates_rounding_example score_rounding_example)

lemma select_two_equal:
  "selectOptimalFFmpegNode
     [exNode ''ffmpeg-b'' ''us-east-1'' 6 [], exNode ''ffmpeg-a'' ''us-east-1'' 6 []]
     (exReq ''us-east-1'') = Some (exNode ''ffmpeg-b'' ''us-east-1'' 6 [])"
  by (simp add: placement_defs)



text \<open>
  Claim C8, as stated, fails on a tie: of two recorders that differ in their identifier
  only, listed as \<open>ffmpeg-b\<close> then \<open>ffmpeg-a\<close>, the placement returns \<open>ffmpeg-b\<close>, although
  both have the same score and \<open>ffmpeg-a\<close> is the lexicographically smaller identifier.
\<close>

theorem placement_tie_counterexample:
  "map_option nodeId (selectOptimalFFmpegNode
      [exNode ''ffmpeg-b'' ''us-east-1'' 6 [], exNode ''ffmpeg-a'' ''us-east-1'' 6 []]
      (exReq ''us-east-1'')) = Some ''ffmpeg-b''
   \<and> calculateNodeScore (exNode ''ffmpeg-a'' ''us-east-1'' 6 []) (exReq ''us-east-1'')
       = calculateNodeScore (exNode ''ffmpeg-b'' ''us-east-1'' 6 []) (exReq ''us-east-1'')
   \<and> ''ffmpeg-a'' < ''ffmpeg-b''"
  by (simp add: placement_defs)

text \<open>
  Claim C8, amended. The placement is a function of the candidate list and the
  requirement. It returns no recorder exactly when no candidate passes the filters;
  otherwise it returns the candidate of maximal score that comes first in the list:
  every candidate before it has a strictly smaller score, every candidate after it a
  score that is not larger. Ties are broken by the order of the list (the insertion
  order of the registry), not by the identifier.
\<close>

theorem placement_first_of_max:
  "(selectOptimalFFmpegNode nodes req = None \<longleftrightarrow> hardwareFilteredNodes nodes req = [])
   \<and> (\<forall>n. selectOptimalFFmpegNode nodes req = Some n \<longrightarrow>
        (\<exists>pre post. hardwareFilteredNodes nodes req = pre @ n # post
           \<and> (\<forall>m\<in>set pre. calculateNodeScore m req < calculateNodeScore n req)
           \<and> (\<forall>m\<in>set post. calculateNodeScore m req \<le> calculateNodeScore n req)))"
proof (intro conjI allI impI)
  show "selectOptimalFFmpegNode nodes req = None \<longleftrightarrow> hardwareFilteredNodes nodes req = []"
    by (simp add: select_eq)
next
  fix n assume a: "selectOptimalFFmpegNode nodes req = Some n"
  let ?cs = "hardwareFilteredNodes nodes req"
  from a have ne: "?cs \<noteq> []" and n: "n = hd (sort_key (\<lambda>n. - calculateNodeScore n req) ?cs)"
    by (auto simp: select_eq split: if_splits)
  from hd_sort_key_first_min [OF ne, of "\<lambda>n. - calculateNodeScore n req"] n
  show "\<exists>pre post. ?cs = pre @ n # post
           \<and> (\<forall>m\<in>set pre. calculateNodeScore m req < calculateNodeScore n req)
           \<and> (\<forall>m\<in>set post. calculateNodeScore m req \<le> calculateNodeScore n req)"
    by simp
qed

theorem placement_first_of_max_witness:
  "selectOptimalFFmpegNode
     [exNode ''ffmpeg-b'' ''us-east-1'' 6 [], exNode ''ffmpeg-a'' ''us-east-1'' 6 []]
     (exReq ''us-east-1'') = Some (exNode ''ffmpeg-b'' ''us-east-1'' 6 [])
   \<and> (\<exists>pre post. hardwareFilteredNodes
         [exNode ''ffmpeg-b'' ''us-east-1'' 6 [], exNode ''ffmpeg-a'' ''us-east-1'' 6 []]
         (exReq ''us-east-1'') = pre @ exNode ''ffmpeg-b'' ''us-east-1'' 6 [] # post
       \<and> (\<forall>m\<in>set pre. calculateNodeScore m (exReq ''us-east-1'')
              < calculateNodeScore (exNode ''ffmpeg-b'' ''us-east-1'' 6 []) (exReq ''us-east-1''))
       \<and> (\<forall>m\<in>set post. calculateNodeScore m (exReq ''us-east-1'')
              \<le> calculateNodeScore (exNode ''ffmpeg-b'' ''us-east-1'' 6 []) (exReq ''us-east-1'')))"
  using placement_first_of_max
          [of "[exNode ''ffmpeg-b'' ''us-east-1'' 6 [], exNode ''ffmpeg-a'' ''us-east-1'' 6 []]"
              "exReq ''us-east-1''"]
        select_two_equal
  by blast

section \<open>Evaluation of the example histories\<close>

lemmas ex_defs = exRoomServer_def exJob_def exState_def okWorld_def downWorld_def exNode_def
  exSpecs_def exReq_def exStreams_def exRequest_def startFailsWorld_def exCfg_def exSetupLog_def

lemmas assign_defs = assignJobToNode_def setupRTPForwarding_def allocateRTPPorts_def
  startRecordingOnNode_def assignFailed_def fetch_def updJob_def Let_def

lemmas stop_defs = stopDistributedRecording_def stopNodeStep_def stopServerStep_def
  stopFinish_def stopRecordingOnNode_def stopRTPForwarding_def stopFailed_def

lemmas eval_defs = assign_defs stop_defs mapGet_def modifyNode_def forwardingConfigOf_def
  portAt_def extractIPFromURL_def enumerate_eq_zip startDistributedRecording_def
  selectOptimalFFmpegNode_def hardwareFilteredNodes_def sortByScore_def
  calculateNodeScore_def codecMatch_def extractCodecRequirements_def estimateRecordingLoad_def
  fl_simps

lemma exAfterFailedStart_state:
  "exAfterFailedStart =
     \<lparr>roomServers = [exRoomServer 0],
      ffmpegNodes = [exNode ''ffmpeg-a'' ''us-east-1'' 6 []],
      jobHeap = (\<lambda>_. exJob [] pending)
                  (''rec-1'' := (exJob ''ffmpeg-a'' failed)\<lparr>errorMessage := Some ''ECONNREFUSED''\<rparr>),
      activeJobIds = [''rec-1''], jobQueue = [], portAllocations = Map.empty,
      rpcLog = [AllocatePorts ''http://ffmpeg-a:9000'' 2]\<rparr>"
  by (simp add: exAfterFailedStart_def exIdle_def eval_defs ex_defs)

lemma exBusy_state:
  "exBusy =
     \<lparr>roomServers = [exRoomServer 1],
      ffmpegNodes = [exNode ''ffmpeg-a'' ''us-east-1'' 6 [''rec-2'']],
      jobHeap = (\<lambda>_. exJob [] pending)
                  (''rec-2'' := (exJob ''ffmpeg-a'' recording)\<lparr>rtpForwarding := Some (exCfg ''rec-2'')\<rparr>),
      activeJobIds = [''rec-2''], jobQueue = [], portAllocations = Map.empty,
      rpcLog = exSetupLog ''rec-2''\<rparr>"
  by (simp add: exBusy_def exIdle_def eval_defs ex_defs)


section \<open>Assignment\<close>


lemma assign_other_job:
  "j' \<noteq> j \<Longrightarrow> jobHeap (assignJobToNode w j n rs st) j' = jobHeap st j'"
  by (simp add: assign_defs split: response.splits option.splits)



lemma assign_nodes:
  "ffmpegNodes (assignJobToNode w j n rs st) = ffmpegNodes st
   \<or> ffmpegNodes (assignJobToNode w j n rs st) =
       modifyNode (nodeId n) (\<lambda>m. m\<lparr>currentLoad := currentLoad m + 1, activeJobs := activeJobs m @ [j]\<rparr>)
         (ffmpegNodes st)"
  by (simp add: assign_defs split: response.splits option.splits)

lemma assign_roomServers:
  "roomServers (assignJobToNode w j n rs st) = roomServers st
   \<or> roomServers (assignJobToNode w j n rs st) =
       modifyNode (nodeId rs) (\<lambda>r. r\<lparr>currentLoad := currentLoad r + 1\<rparr>) (roomServers st)"
  by (simp add: assign_defs split: response.splits option.splits)






text \<open>
  Claim C3 and the code. A start whose first call is refused leaves the job \<open>failed\<close>,
  a terminal status, with no \<open>endTime\<close>: the \<open>catch\<close> block of \<open>assignJobToNode\<close> does not
  stamp it, as the \<open>catch\<close> block of \<open>stopDistributedRecording\<close> and both health
  handlers do. The failed job stays in the active-jobs map, and a stop then moves it
  from \<open>failed\<close> to \<open>completed\<close>, which is no edge of the job model's transition table.
\<close>

theorem status_machine_broken_by_assign_and_stop:
  "status (jobHeap exAfterFailedStart ''rec-1'') = failed
   \<and> isTerminal (jobHeap exAfterFailedStart ''rec-1'')
   \<and> endTime (jobHeap exAfterFailedStart ''rec-1'') = None
   \<and> ''rec-1'' \<in> set (activeJobIds exAfterFailedStart)
   \<and> status (jobHeap (snd (stopDistributedRecording okWorld 2 ''rec-1'' exAfterFailedStart)) ''rec-1'')
       = completed
   \<and> \<not> isValidStatusTransition failed completed"
  unfolding exAfterFailedStart_state
  by (simp add: eval_defs ex_defs isTerminal_def isValidStatusTransition_def)

section \<open>Stop\<close>


lemma stopServerStep_frame:
  "stopServerStep w j st = (r, st1) \<Longrightarrow>
     jobHeap st1 = jobHeap st \<and> ffmpegNodes st1 = ffmpegNodes st
     \<and> activeJobIds st1 = activeJobIds st \<and> jobQueue st1 = jobQueue st
     \<and> portAllocations st1 = portAllocations st"
  by (auto simp: stopServerStep_def stopRTPForwarding_def fetch_def split: option.splits response.splits)















section \<open>Room-server failure\<close>

lemma mapGet_modifyNode:
  assumes "\<And>n. nodeId (f n) = nodeId n"
  shows "mapGet k (modifyNode k' f ns) = map_option (\<lambda>n. if nodeId n = k' then f n else n) (mapGet k ns)"
  using assms by (induction ns) (auto simp: mapGet_def modifyNode_def)

lemma failRoomServerJob_heap:
  "jobHeap (failRoomServerJob w now j st) =
     (jobHeap st)(j := (jobHeap st j)\<lparr>status := failed,
                    errorMessage := Some ''Room server became unhealthy'', endTime := Some now\<rparr>)"
  by (simp add: failRoomServerJob_def stopRecordingOnNode_def fetch_def updJob_def Let_def
           split: option.splits response.splits)


lemma failRoomServerJob_urlOf:
  "urlOf k (ffmpegNodes (failRoomServerJob w now j st)) = urlOf k (ffmpegNodes st)"
  by (auto simp add: failRoomServerJob_def stopRecordingOnNode_def fetch_def updJob_def Let_def urlOf_def
              mapGet_modifyNode option.map_comp comp_def
           split: option.splits response.splits intro!: option.map_cong)




lemma fold_fail_urlOf:
  "urlOf k (ffmpegNodes (fold (failRoomServerJob w now) js st)) = urlOf k (ffmpegNodes st)"
  by (induction js arbitrary: st) (simp_all add: failRoomServerJob_urlOf)








section \<open>Recorder failover\<close>

text \<open>
  Claim C1 and the code. With the room server's region as requirement, the placement
  over the remaining healthy recorders chooses \<open>ffmpeg-b\<close>, the recorder in that
  region. The failover handler passes the peer's display name (\<open>Alice\<close>) as the region
  instead; no recorder is in a region of that name, so the region preference falls
  back to all of them, and the job is assigned to the idle \<open>ffmpeg-c\<close> of the other
  region.
\<close>

theorem failover_region_is_display_name:
  "map_option nodeId
     (selectOptimalFFmpegNode
        (filter (\<lambda>n. isHealthy n \<and> nodeId n \<noteq> ''ffmpeg-a'') (ffmpegNodes exFailover))
        \<lparr>reqRegion = region (exRoomServer 4),
         codecRequirements = extractCodecRequirements (rtpStreams (jobHeap exFailover ''rec-1'')),
         estimatedLoad = 1, preferGPU = False, minCPUCores = None, minRAM = None\<rparr>)
     = Some ''ffmpeg-b''
   \<and> displayName (peerInfo (jobHeap exFailover ''rec-1'')) = ''Alice''
   \<and> status (jobHeap (handleUnhealthyFFmpegNode okWorld 70000 ''ffmpeg-a'' exFailover) ''rec-1'')
       = recording
   \<and> ffmpegNodeId (jobHeap (handleUnhealthyFFmpegNode okWorld 70000 ''ffmpeg-a'' exFailover) ''rec-1'')
       = ''ffmpeg-c''"
  by (simp add: exFailover_def handleUnhealthyFFmpegNode_def reassignJob_def eval_defs ex_defs)

section \<open>A stop of a queued job\<close>

lemma exQueued_state:
  "exQueued = \<lparr>roomServers = [exRoomServer 0], ffmpegNodes = [],
               jobHeap = (\<lambda>_. exJob [] pending)(''rec-1'' := exJob [] pending),
               activeJobIds = [''rec-1''], jobQueue = [''rec-1''],
               portAllocations = Map.empty, rpcLog = []\<rparr>"
  by (simp add: exQueued_def exNoRecorder_def eval_defs ex_defs)

lemma exStoppedInQueue_state:
  "exStoppedInQueue =
     \<lparr>roomServers = [exRoomServer 0], ffmpegNodes = [],
      jobHeap = (\<lambda>_. exJob [] pending)(''rec-1'' := (exJob [] completed)\<lparr>endTime := Some 1\<rparr>),
      activeJobIds = [], jobQueue = [''rec-1''],
      portAllocations = Map.empty, rpcLog = [StopRtpForwarding ''http://rs1:3000'' ''rec-1'']\<rparr>"
  unfolding exStoppedInQueue_def exQueued_state
  by (simp add: eval_defs ex_defs)

lemma exRegistered_state:
  "registerFFmpegNode 0 ''ffmpeg-a'' exRegistration exStoppedInQueue =
     \<lparr>roomServers = [exRoomServer 0], ffmpegNodes = [exNode ''ffmpeg-a'' ''us-east-1'' 6 []],
      jobHeap = (\<lambda>_. exJob [] pending)(''rec-1'' := (exJob [] completed)\<lparr>endTime := Some 1\<rparr>),
      activeJobIds = [], jobQueue = [''rec-1''],
      portAllocations = Map.empty, rpcLog = [StopRtpForwarding ''http://rs1:3000'' ''rec-1'']\<rparr>"
proof -
  have f: "\<lfloor>(2048::rat) / 125\<rfloor> = 16" by (simp add: floor_eq_iff)
  show ?thesis
    unfolding exStoppedInQueue_state
    using f by (simp add: registerFFmpegNode_def exRegistration_def calculateNodeCapacity_def ex_defs Let_def)
qed

lemma exDrained_state:
  "exDrained =
     \<lparr>roomServers = [exRoomServer 1], ffmpegNodes = [exNode ''ffmpeg-a'' ''us-east-1'' 6 [''rec-1'']],
      jobHeap = (\<lambda>_. exJob [] pending)
                  (''rec-1'' := (exJob ''ffmpeg-a'' recording)
                                  \<lparr>rtpForwarding := Some (exCfg ''rec-1''), endTime := Some 1\<rparr>),
      activeJobIds = [], jobQueue = [],
      portAllocations = Map.empty,
      rpcLog = StopRtpForwarding ''http://rs1:3000'' ''rec-1'' # exSetupLog ''rec-1''\<rparr>"
  unfolding exDrained_def exRegistered_state
  by (simp add: processJobQueue_def List.map_filter_def eval_defs ex_defs)

lemma stop_pending_completes:
  assumes a: "j \<in> set (activeJobIds st)"
    and n: "mapGet (ffmpegNodeId (jobHeap st j)) (ffmpegNodes st) = None"
    and r: "\<forall>rs m. mapGet (roomServerId (jobHeap st j)) (roomServers st) = Some rs
                 \<longrightarrow> respond w (rpcLog st) (StopRtpForwarding (url rs) j) \<noteq> Rejected m"
    and d: "\<forall>log. dbError w log j = None"
  shows "\<not> isl (fst (stopDistributedRecording w now j st))
       \<and> status (jobHeap (snd (stopDistributedRecording w now j st)) j) = completed
       \<and> endTime (jobHeap (snd (stopDistributedRecording w now j st)) j) = Some now
       \<and> j \<notin> set (activeJobIds (snd (stopDistributedRecording w now j st)))
       \<and> jobQueue (snd (stopDistributedRecording w now j st)) = jobQueue st
       \<and> ffmpegNodes (snd (stopDistributedRecording w now j st)) = ffmpegNodes st"
proof -
  have s1: "stopNodeStep w j st = (Inr (), st)"
    using n by (simp add: stopNodeStep_def)
  obtain r2 st2 where s2: "stopServerStep w j st = (r2, st2)"
    by (cases "stopServerStep w j st")
  have r2: "r2 = Inr ()"
    using s2 r by (auto simp: stopServerStep_def stopRTPForwarding_def fetch_def
                        split: option.splits response.splits)
  note f2 = stopServerStep_frame [OF s2]
  have e: "stopDistributedRecording w now j st = stopFinish w now j st2"
    using a s1 s2 r2 by (simp add: stopDistributedRecording_def)
  show ?thesis
    unfolding e using d f2 by (simp add: stopFinish_def updJob_def Let_def)
qed

text \<open>
  Claim C10, as stated, fails where it says that the stop succeeds: when the room
  server refuses the \<open>stop-rtp-forwarding\<close> call, the stop of a queued pending job
  throws, the job becomes \<open>failed\<close> and it stays in the active-jobs map.
\<close>

theorem stop_pending_counterexample:
  "status (jobHeap exQueued ''rec-1'') = pending
   \<and> ffmpegNodeId (jobHeap exQueued ''rec-1'') = []
   \<and> jobQueue exQueued = [''rec-1'']
   \<and> fst (stopDistributedRecording downWorld 1 ''rec-1'' exQueued) = Inl ''ECONNREFUSED''
   \<and> status (jobHeap (snd (stopDistributedRecording downWorld 1 ''rec-1'' exQueued)) ''rec-1'') = failed
   \<and> activeJobIds (snd (stopDistributedRecording downWorld 1 ''rec-1'' exQueued)) = [''rec-1'']"
  unfolding exQueued_state
  by (simp add: eval_defs ex_defs)

text \<open>
  Claim C10, amended. For a pending job of the queue with no recorder registered under
  its (empty) recorder identifier, when the \<open>stop-rtp-forwarding\<close> call to its room
  server does not throw and the database write succeeds, the stop succeeds, completes
  the job and removes it from the active-jobs map, and leaves the pending queue as it
  was, the job still in it. A later drain can then assign the completed job: in the
  example history the job stopped in the queue is placed on the recorder that
  registers afterwards, is \<open>recording\<close> there and counts in its load, and is not in the
  active-jobs map.
\<close>

theorem stop_of_queued_job_leaves_queue_entry:
  "(j \<in> set (activeJobIds st) \<and> j \<in> set (jobQueue st) \<and> status (jobHeap st j) = pending
      \<and> mapGet (ffmpegNodeId (jobHeap st j)) (ffmpegNodes st) = None
      \<and> (\<forall>rs m. mapGet (roomServerId (jobHeap st j)) (roomServers st) = Some rs
                 \<longrightarrow> respond w (rpcLog st) (StopRtpForwarding (url rs) j) \<noteq> Rejected m)
      \<and> (\<forall>log. dbError w log j = None)
    \<longrightarrow> \<not> isl (fst (stopDistributedRecording w now j st))
        \<and> status (jobHeap (snd (stopDistributedRecording w now j st)) j) = completed
        \<and> j \<notin> set (activeJobIds (snd (stopDistributedRecording w now j st)))
        \<and> jobQueue (snd (stopDistributedRecording w now j st)) = jobQueue st
        \<and> j \<in> set (jobQueue (snd (stopDistributedRecording w now j st))))
   \<and> status (jobHeap exStoppedInQueue ''rec-1'') = completed
   \<and> jobQueue exStoppedInQueue = [''rec-1'']
   \<and> status (jobHeap exDrained ''rec-1'') = recording
   \<and> map activeJobs (ffmpegNodes exDrained) = [[''rec-1'']]
   \<and> map currentLoad (ffmpegNodes exDrained) = [1]
   \<and> activeJobIds exDrained = []"
proof -
  have g: "\<not> isl (fst (stopDistributedRecording w now j st))
        \<and> status (jobHeap (snd (stopDistributedRecording w now j st)) j) = completed
        \<and> j \<notin> set (activeJobIds (snd (stopDistributedRecording w now j st)))
        \<and> jobQueue (snd (stopDistributedRecording w now j st)) = jobQueue st
        \<and> j \<in> set (jobQueue (snd (stopDistributedRecording w now j st)))"
    if "j \<in> set (activeJobIds st)" "j \<in> set (jobQueue st)"
      "mapGet (ffmpegNodeId (jobHeap st j)) (ffmpegNodes st) = None"
      "\<forall>rs m. mapGet (roomServerId (jobHeap st j)) (roomServers st) = Some rs
                 \<longrightarrow> respond w (rpcLog st) (StopRtpForwarding (url rs) j) \<noteq> Rejected m"
      "\<forall>log. dbError w log j = None"
    using stop_pending_completes [OF that(1) that(3) that(4) that(5), of now] that(2) by simp
  have c: "status (jobHeap exStoppedInQueue ''rec-1'') = completed
         \<and> jobQueue exStoppedInQueue = [''rec-1'']"
    unfolding exStoppedInQueue_state by (simp add: ex_defs)
  have d: "status (jobHeap exDrained ''rec-1'') = recording
         \<and> map activeJobs (ffmpegNodes exDrained) = [[''rec-1'']]
         \<and> map currentLoad (ffmpegNodes exDrained) = [1]
         \<and> activeJobIds exDrained = []"
    unfolding exDrained_state by (simp add: ex_defs)
  show ?thesis using g c d by blast
qed

theorem stop_of_queued_job_leaves_queue_entry_witness:
  "\<not> isl (fst (stopDistributedRecording okWorld 1 ''rec-1'' exQueued))
   \<and> status (jobHeap (snd (stopDistributedRecording okWorld 1 ''rec-1'' exQueued)) ''rec-1'') = completed
   \<and> ''rec-1'' \<in> set (jobQueue (snd (stopDistributedRecording okWorld 1 ''rec-1'' exQueued)))"
proof -
  have h: "''rec-1'' \<in> set (activeJobIds exQueued) \<and> ''rec-1'' \<in> set (jobQueue exQueued)
           \<and> status (jobHeap exQueued ''rec-1'') = pending
           \<and> mapGet (ffmpegNodeId (jobHeap exQueued ''rec-1'')) (ffmpegNodes exQueued) = None"
    unfolding exQueued_state by (simp add: ex_defs mapGet_def)
  have r: "\<forall>rs m. mapGet (roomServerId (jobHeap exQueued ''rec-1'')) (roomServers exQueued) = Some rs
                 \<longrightarrow> respond okWorld (rpcLog exQueued) (StopRtpForwarding (url rs) ''rec-1'') \<noteq> Rejected m"
    by (simp add: okWorld_def)
  have d: "\<forall>log. dbError okWorld log ''rec-1'' = None"
    by (simp add: okWorld_def)
  from stop_of_queued_job_leaves_queue_entry [of "''rec-1''" exQueued okWorld 1]
  show ?thesis using h r d by blast
qed

section \<open>The load invariant\<close>

lemma inv_modifyNode:
  assumes "list_all loadInv ns" and "\<And>n. loadInv n \<Longrightarrow> nodeId n = k \<Longrightarrow> loadInv (f n)"
  shows "list_all loadInv (modifyNode k f ns)"
  using assms by (induction ns) (auto simp: modifyNode_def)

lemma inv_mapSet:
  assumes "list_all loadInv ns" and "loadInv n"
  shows "list_all loadInv (mapSet n ns)"
  using assms by (induction ns) auto

lemma inv_register: "fleetInv st \<Longrightarrow> fleetInv (registerFFmpegNode now k reg st)"
  by (simp add: fleetInv_def registerFFmpegNode_def Let_def inv_mapSet loadInv_def)

lemma inv_registerRoomServer: "fleetInv (registerRoomServer now reg st) = fleetInv st"
  by (simp add: fleetInv_def registerRoomServer_def Let_def)

lemma inv_assign: "fleetInv st \<Longrightarrow> fleetInv (assignJobToNode w j n rs st)"
  using assign_nodes [of w j n rs st]
  by (auto simp: fleetInv_def loadInv_def intro!: inv_modifyNode)

lemma inv_updJob [simp]: "fleetInv (updJob j f st) = fleetInv st"
  by (simp add: fleetInv_def updJob_def)

lemma inv_start: "fleetInv st \<Longrightarrow> fleetInv (snd (startDistributedRecording w now k rq st))"
proof -
  assume a: "fleetInv st"
  have b: "fleetInv (st\<lparr>jobHeap := h\<rparr>)" for h using a by (simp add: fleetInv_def)
  have c: "fleetInv (s\<lparr>activeJobIds := x\<rparr>) = fleetInv s" for s x by (simp add: fleetInv_def)
  have d: "fleetInv (s\<lparr>jobQueue := x\<rparr>) = fleetInv s" for s x by (simp add: fleetInv_def)
  show ?thesis
    using a by (auto simp: startDistributedRecording_def Let_def c d b inv_assign
                     split: option.splits)
qed

lemma inv_reassign: "fleetInv st \<Longrightarrow> fleetInv (reassignJob w now k j st)"
  by (auto simp: reassignJob_def Let_def inv_assign split: option.splits)

lemma inv_fold_reassign: "fleetInv st \<Longrightarrow> fleetInv (fold (reassignJob w now k) js st)"
  by (induction js arbitrary: st) (simp_all add: inv_reassign)

lemma inv_recorder_failure: "fleetInv st \<Longrightarrow> fleetInv (handleUnhealthyFFmpegNode w now k st)"
proof -
  assume a: "fleetInv st"
  have "fleetInv (st\<lparr>ffmpegNodes := modifyNode k (\<lambda>n. n\<lparr>isHealthy := False\<rparr>) (ffmpegNodes st)\<rparr>)"
    using a by (auto simp: fleetInv_def loadInv_def intro!: inv_modifyNode)
  then show ?thesis
    by (simp add: handleUnhealthyFFmpegNode_def Let_def inv_fold_reassign)
qed

lemma inv_drain: "fleetInv st \<Longrightarrow> fleetInv (drainQueue w js avail st)"
proof (induction w js avail st rule: drainQueue.induct)
  case (1 w availableNodes st)
  then show ?case by simp
next
  case (2 w j js availableNodes st)
  have q: "fleetInv (s\<lparr>jobQueue := x\<rparr>) = fleetInv s" for s x by (simp add: fleetInv_def)
  show ?case
    using 2 by (auto simp: q inv_assign split: option.splits)
qed

lemma inv_queue: "fleetInv st \<Longrightarrow> fleetInv (processJobQueue w st)"
  by (simp add: processJobQueue_def inv_drain)

lemma inv_heartbeat:
  assumes "fleetInv st" and "fhbLoad hb = Some l" and "l \<noteq> 0"
    and "fhbActiveJobs hb = Some js" and "of_nat (length js) = l"
  shows "fleetInv (updateFFmpegNodeHeartbeat now k hb st)"
  using assms
  by (auto simp: fleetInv_def updateFFmpegNodeHeartbeat_def orElse_def loadInv_def
           intro!: inv_modifyNode)

lemma length_filter_neq: "length (filter (\<lambda>i. i \<noteq> j) xs) + count_list xs j = length xs"
  by (induction xs) auto

lemma loadInv_stop:
  assumes "loadInv n" and "count_list (activeJobs n) j = 1"
  shows "loadInv (n\<lparr>currentLoad := max 0 (currentLoad n - 1),
                    activeJobs := filter (\<lambda>i. i \<noteq> j) (activeJobs n)\<rparr>)"
proof -
  from length_filter_neq [of j "activeJobs n"] assms(2)
  have l: "length (activeJobs n) = Suc (length (filter (\<lambda>i. i \<noteq> j) (activeJobs n)))" by simp
  have "currentLoad n = of_nat (length (filter (\<lambda>i. i \<noteq> j) (activeJobs n))) + 1"
    using assms(1) l by (simp add: loadInv_def)
  then show ?thesis by (simp add: loadInv_def)
qed

lemma mapGet_nodeId: "mapGet k ns = Some n \<Longrightarrow> nodeId n = k"
  by (auto simp: mapGet_def dest: find_Some_iff [THEN iffD1])

lemma inv_modifyNode_stop:
  assumes "list_all loadInv ns"
    and "list_all (\<lambda>n. nodeId n \<noteq> k \<or> count_list (activeJobs n) j = 1) ns"
  shows "list_all loadInv (modifyNode k
           (\<lambda>n. n\<lparr>currentLoad := max 0 (currentLoad n - 1),
                   activeJobs := filter (\<lambda>i. i \<noteq> j) (activeJobs n)\<rparr>) ns)"
  using assms by (induction ns) (auto simp: modifyNode_def intro: loadInv_stop)

lemma inv_stopNodeStep:
  assumes "fleetInv st" and "listedOnce j st" and "stopNodeStep w j st = (r, st1)"
  shows "fleetInv st1"
proof (cases "mapGet (ffmpegNodeId (jobHeap st j)) (ffmpegNodes st)")
  case None
  with assms show ?thesis by (simp add: stopNodeStep_def)
next
  case (Some n)
  then have k: "nodeId n = ffmpegNodeId (jobHeap st j)" by (rule mapGet_nodeId)
  have m: "list_all loadInv (modifyNode (nodeId n)
             (\<lambda>n. n\<lparr>currentLoad := max 0 (currentLoad n - 1),
                     activeJobs := filter (\<lambda>i. i \<noteq> j) (activeJobs n)\<rparr>) (ffmpegNodes st))"
    using assms(1,2) unfolding fleetInv_def listedOnce_def k by (rule inv_modifyNode_stop)
  show ?thesis
    using assms Some m
    by (auto simp: stopNodeStep_def stopRecordingOnNode_def fetch_def fleetInv_def
             split: response.splits)
qed

lemma inv_stop:
  assumes i: "fleetInv st" and l: "listedOnce j st"
  shows "fleetInv (snd (stopDistributedRecording w now j st))"
proof (cases "j \<in> set (activeJobIds st)")
  case False
  then show ?thesis using i by (simp add: stopDistributedRecording_def)
next
  case True
  obtain r1 st1 where s1: "stopNodeStep w j st = (r1, st1)"
    by (cases "stopNodeStep w j st")
  have i1: "fleetInv st1" by (rule inv_stopNodeStep [OF i l s1])
  have fin: "fleetInv (snd (stopFinish w now j s))" if "fleetInv s" for s
    using that by (simp add: stopFinish_def stopFailed_def Let_def fleetInv_def updJob_def
                        split: option.splits)
  have fl: "fleetInv (snd (stopFailed now j e s))" if "fleetInv s" for s e
    using that by (simp add: stopFailed_def)
  show ?thesis
  proof (cases r1)
    case (Inl e1)
    with True s1 show ?thesis by (simp add: stopDistributedRecording_def fl i1)
  next
    case (Inr u1)
    obtain r2 st2 where s2: "stopServerStep w j st1 = (r2, st2)"
      by (cases "stopServerStep w j st1")
    have i2: "fleetInv st2"
      using stopServerStep_frame [OF s2] i1 by (simp add: fleetInv_def)
    show ?thesis
      using True s1 s2 Inr by (cases r2) (simp_all add: stopDistributedRecording_def fl fin i2)
  qed
qed

lemma failRoomServerJob_nodes:
  "ffmpegNodes (failRoomServerJob w now i st) = ffmpegNodes st
   \<or> ffmpegNodes (failRoomServerJob w now i st) =
       modifyNode (ffmpegNodeId (jobHeap st i))
         (\<lambda>n. n\<lparr>currentLoad := max 0 (currentLoad n - 1),
                 activeJobs := filter (\<lambda>x. x \<noteq> i) (activeJobs n)\<rparr>) (ffmpegNodes st)"
  by (auto simp: failRoomServerJob_def stopRecordingOnNode_def fetch_def updJob_def Let_def
           split: option.splits response.splits dest: mapGet_nodeId)

lemma inv_failRoomServerJob:
  assumes "fleetInv st" and "listedOnce i st"
  shows "fleetInv (failRoomServerJob w now i st)"
proof -
  have m: "list_all loadInv (modifyNode (ffmpegNodeId (jobHeap st i))
             (\<lambda>n. n\<lparr>currentLoad := max 0 (currentLoad n - 1),
                     activeJobs := filter (\<lambda>x. x \<noteq> i) (activeJobs n)\<rparr>) (ffmpegNodes st))"
    using assms unfolding fleetInv_def listedOnce_def by (rule inv_modifyNode_stop)
  show ?thesis
    using failRoomServerJob_nodes [of w now i st] assms(1) m by (auto simp: fleetInv_def)
qed

lemma count_list_filter_neq: "j \<noteq> i \<Longrightarrow> count_list (filter (\<lambda>x. x \<noteq> i) xs) j = count_list xs j"
  by (induction xs) auto

lemma listedOnce_failRoomServerJob:
  assumes "listedOnce j st" and "j \<noteq> i"
  shows "listedOnce j (failRoomServerJob w now i st)"
proof -
  have h: "ffmpegNodeId (jobHeap (failRoomServerJob w now i st) j) = ffmpegNodeId (jobHeap st j)"
    by (simp add: failRoomServerJob_heap)
  have m: "list_all (\<lambda>n. nodeId n \<noteq> k \<or> count_list (activeJobs n) j = 1) ns \<Longrightarrow>
           list_all (\<lambda>n. nodeId n \<noteq> k \<or> count_list (activeJobs n) j = 1)
             (modifyNode k' (\<lambda>n. n\<lparr>currentLoad := max 0 (currentLoad n - 1),
                 activeJobs := filter (\<lambda>x. x \<noteq> i) (activeJobs n)\<rparr>) ns)"
    for k k' and ns :: "FFmpegNode list"
    using assms(2) by (induction ns) (auto simp: modifyNode_def count_list_filter_neq)
  show ?thesis
    using failRoomServerJob_nodes [of w now i st] assms(1) m
    unfolding listedOnce_def h by auto
qed

lemma inv_fold_fail:
  assumes "fleetInv st" and "distinct js" and "list_all (\<lambda>j. listedOnce j st) js"
  shows "fleetInv (fold (failRoomServerJob w now) js st)"
  using assms
proof (induction js arbitrary: st)
  case Nil
  then show ?case by simp
next
  case (Cons i js)
  let ?st1 = "failRoomServerJob w now i st"
  have 1: "fleetInv ?st1" using Cons.prems by (simp add: inv_failRoomServerJob)
  have 2: "list_all (\<lambda>j. listedOnce j ?st1) js"
    using Cons.prems by (auto simp: list_all_iff intro!: listedOnce_failRoomServerJob)
  show ?case using Cons.IH [OF 1 _ 2] Cons.prems(2) by simp
qed

lemma inv_room_server_failure:
  assumes "fleetInv st" and "distinct (activeJobIds st)"
    and "list_all (\<lambda>j. roomServerId (jobHeap st j) \<noteq> k \<or> status (jobHeap st j) \<noteq> recording
                        \<or> listedOnce j st) (activeJobIds st)"
  shows "fleetInv (handleUnhealthyRoomServer w now k st)"
proof -
  let ?st1 = "st\<lparr>roomServers := modifyNode k (\<lambda>r. r\<lparr>isHealthy := False\<rparr>) (roomServers st)\<rparr>"
  have l: "listedOnce j ?st1 = listedOnce j st" for j by (simp add: listedOnce_def)
  have "fleetInv ?st1" using assms(1) by (simp add: fleetInv_def)
  moreover have "distinct (filter (\<lambda>j. roomServerId (jobHeap st j) = k \<and> status (jobHeap st j) = recording)
                    (activeJobIds st))"
    using assms(2) by simp
  moreover have "list_all (\<lambda>j. listedOnce j ?st1)
                   (filter (\<lambda>j. roomServerId (jobHeap st j) = k \<and> status (jobHeap st j) = recording)
                      (activeJobIds st))"
    using assms(3) by (auto simp: list_all_iff l)
  ultimately show ?thesis
    by (simp add: handleUnhealthyRoomServer_def Let_def inv_fold_fail)
qed

lemma heartbeat_installs:
  fixes ns :: "FFmpegNode list"
  shows "list_all (\<lambda>m. nodeId m \<noteq> k \<or> currentLoad m = l \<and> activeJobs m = js)
     (modifyNode k (\<lambda>n. n\<lparr>lastHeartbeat := now, currentLoad := l, activeJobs := js,
                            isHealthy := True\<rparr>) ns)"
  by (induction ns) (simp_all add: modifyNode_def)

text \<open>
  Claim C2, as stated, fails at a heartbeat: the load and the active list of the
  recorder are overwritten separately with what the payload reports, so a heartbeat of
  \<open>ffmpeg-a\<close> that reports load 3 and one active job leaves a recorder whose load is 3
  and whose active list has one element.
\<close>

theorem heartbeat_breaks_load_invariant_counterexample:
  "fleetInv exBusy
   \<and> map currentLoad (ffmpegNodes (updateFFmpegNodeHeartbeat 5 ''ffmpeg-a''
        \<lparr>fhbLoad = Some 3, fhbActiveJobs = Some [''rec-2'']\<rparr> exBusy)) = [3]
   \<and> map activeJobs (ffmpegNodes (updateFFmpegNodeHeartbeat 5 ''ffmpeg-a''
        \<lparr>fhbLoad = Some 3, fhbActiveJobs = Some [''rec-2'']\<rparr> exBusy)) = [[''rec-2'']]
   \<and> \<not> fleetInv (updateFFmpegNodeHeartbeat 5 ''ffmpeg-a''
        \<lparr>fhbLoad = Some 3, fhbActiveJobs = Some [''rec-2'']\<rparr> exBusy)"
  unfolding exBusy_state
  by (simp add: fleetInv_def loadInv_def updateFFmpegNodeHeartbeat_def modifyNode_def orElse_def ex_defs)

text \<open>
  Claim C2, amended. When every recorder satisfies \<open>|activeJobs| = currentLoad\<close>, it
  still does after a registration (of a recorder or a room server), an assignment
  (whatever its outcome), a start, the failover of a recorder and a drain of the
  queue. A stop preserves the invariant when the stopped job occurs exactly once in
  the active list of the recorder that its recorder identifier names, and the handler
  of a room-server failure does when this holds for each job it fails. A heartbeat
  that reports a load other than 0 and a list installs exactly these on the recorder,
  so it preserves the invariant when the reported load is the length of the reported
  list.
\<close>

theorem load_invariant_preservation:
  "fleetInv st \<longrightarrow>
     fleetInv (registerFFmpegNode now k reg st)
     \<and> fleetInv (registerRoomServer now rreg st)
     \<and> fleetInv (assignJobToNode w j n rs st)
     \<and> fleetInv (snd (startDistributedRecording w now k rq st))
     \<and> fleetInv (handleUnhealthyFFmpegNode w now k st)
     \<and> fleetInv (processJobQueue w st)
     \<and> (listedOnce j st \<longrightarrow> fleetInv (snd (stopDistributedRecording w now j st)))
     \<and> (distinct (activeJobIds st)
          \<and> list_all (\<lambda>i. roomServerId (jobHeap st i) \<noteq> k \<or> status (jobHeap st i) \<noteq> recording
                           \<or> listedOnce i st) (activeJobIds st)
        \<longrightarrow> fleetInv (handleUnhealthyRoomServer w now k st))
     \<and> (fhbLoad hb = Some l \<and> l \<noteq> 0 \<and> fhbActiveJobs hb = Some js
        \<longrightarrow> list_all (\<lambda>m. nodeId m \<noteq> k \<or> currentLoad m = l \<and> activeJobs m = js)
              (ffmpegNodes (updateFFmpegNodeHeartbeat now k hb st))
            \<and> (of_nat (length js) = l \<longrightarrow> fleetInv (updateFFmpegNodeHeartbeat now k hb st)))"
proof
  assume a: "fleetInv st"
  have 1: "fleetInv (registerFFmpegNode now k reg st)" using a by (rule inv_register)
  have 2: "fleetInv (registerRoomServer now rreg st)" using a by (simp add: inv_registerRoomServer)
  have 3: "fleetInv (assignJobToNode w j n rs st)" using a by (rule inv_assign)
  have 4: "fleetInv (snd (startDistributedRecording w now k rq st))" using a by (rule inv_start)
  have 5: "fleetInv (handleUnhealthyFFmpegNode w now k st)" using a by (rule inv_recorder_failure)
  have 6: "fleetInv (processJobQueue w st)" using a by (rule inv_queue)
  have 7: "listedOnce j st \<longrightarrow> fleetInv (snd (stopDistributedRecording w now j st))"
    using inv_stop [OF a] by blast
  have 8: "distinct (activeJobIds st)
          \<and> list_all (\<lambda>i. roomServerId (jobHeap st i) \<noteq> k \<or> status (jobHeap st i) \<noteq> recording
                           \<or> listedOnce i st) (activeJobIds st)
        \<longrightarrow> fleetInv (handleUnhealthyRoomServer w now k st)"
    using inv_room_server_failure [OF a] by blast
  have 9: "list_all (\<lambda>m. nodeId m \<noteq> k \<or> currentLoad m = l \<and> activeJobs m = js)
              (ffmpegNodes (updateFFmpegNodeHeartbeat now k hb st))"
    if "fhbLoad hb = Some l \<and> l \<noteq> 0 \<and> fhbActiveJobs hb = Some js"
    using that heartbeat_installs [of k l js now "ffmpegNodes st"]
    by (simp add: updateFFmpegNodeHeartbeat_def orElse_def)
  have 10: "fleetInv (updateFFmpegNodeHeartbeat now k hb st)"
    if "fhbLoad hb = Some l \<and> l \<noteq> 0 \<and> fhbActiveJobs hb = Some js" "of_nat (length js) = l"
    using inv_heartbeat [OF a, of hb l js now k] that by blast
  have h9: "fhbLoad hb = Some l \<and> l \<noteq> 0 \<and> fhbActiveJobs hb = Some js
        \<longrightarrow> list_all (\<lambda>m. nodeId m \<noteq> k \<or> currentLoad m = l \<and> activeJobs m = js)
              (ffmpegNodes (updateFFmpegNodeHeartbeat now k hb st))
            \<and> (of_nat (length js) = l \<longrightarrow> fleetInv (updateFFmpegNodeHeartbeat now k hb st))"
    using 9 10 by blast
  show "fleetInv (registerFFmpegNode now k reg st)
     \<and> fleetInv (registerRoomServer now rreg st)
     \<and> fleetInv (assignJobToNode w j n rs st)
     \<and> fleetInv (snd (startDistributedRecording w now k rq st))
     \<and> fleetInv (handleUnhealthyFFmpegNode w now k st)
     \<and> fleetInv (processJobQueue w st)
     \<and> (listedOnce j st \<longrightarrow> fleetInv (snd (stopDistributedRecording w now j st)))
     \<and> (distinct (activeJobIds st)
          \<and> list_all (\<lambda>i. roomServerId (jobHeap st i) \<noteq> k \<or> status (jobHeap st i) \<noteq> recording
                           \<or> listedOnce i st) (activeJobIds st)
        \<longrightarrow> fleetInv (handleUnhealthyRoomServer w now k st))
     \<and> (fhbLoad hb = Some l \<and> l \<noteq> 0 \<and> fhbActiveJobs hb = Some js
        \<longrightarrow> list_all (\<lambda>m. nodeId m \<noteq> k \<or> currentLoad m = l \<and> activeJobs m = js)
              (ffmpegNodes (updateFFmpegNodeHeartbeat now k hb st))
            \<and> (of_nat (length js) = l \<longrightarrow> fleetInv (updateFFmpegNodeHeartbeat now k hb st)))"
    by (intro conjI 1 2 3 4 5 6 7 8 h9)
qed

theorem load_invariant_preservation_witness:
  "fleetInv exBusy \<and> listedOnce ''rec-2'' exBusy
   \<and> fleetInv (snd (stopDistributedRecording okWorld 1 ''rec-2'' exBusy))
   \<and> fleetInv (updateFFmpegNodeHeartbeat 1 ''ffmpeg-a''
        \<lparr>fhbLoad = Some 2, fhbActiveJobs = Some [''rec-2'', ''rec-3'']\<rparr> exBusy)"
proof -
  have a: "fleetInv exBusy"
    unfolding exBusy_state by (simp add: fleetInv_def loadInv_def ex_defs)
  have b: "listedOnce ''rec-2'' exBusy"
    unfolding exBusy_state by (simp add: listedOnce_def ex_defs)
  from load_invariant_preservation
         [where st = exBusy and j = "''rec-2''" and w = okWorld and now = 1 and k = "''ffmpeg-a''"
            and hb = "\<lparr>fhbLoad = Some 2, fhbActiveJobs = Some [''rec-2'', ''rec-3'']\<rparr>"
            and l = 2 and js = "[''rec-2'', ''rec-3'']"]
  have "fleetInv (snd (stopDistributedRecording okWorld 1 ''rec-2'' exBusy))
        \<and> fleetInv (updateFFmpegNodeHeartbeat 1 ''ffmpeg-a''
             \<lparr>fhbLoad = Some 2, fhbActiveJobs = Some [''rec-2'', ''rec-3'']\<rparr> exBusy)"
    using a b by simp
  then show ?thesis using a b by simp
qed

end
